theory Spec2Isabelle
  imports Complex_Main "HOL-Library.Log_Nat" "HOL-Library.List_Lexorder"
begin

section \<open>Python strings\<close>

text \<open>
  A Python \<open>str\<close> is a sequence of Unicode code points, and \<open>len\<close>, \<open>endswith\<close>,
  slicing and \<open>strip\<close> all count code points. A string is therefore a list of code
  point numbers. \<open>u\<close> embeds an ASCII literal; the Korean literals of the source are
  written out as code points, with a transliteration in the constant's name.
\<close>

type_synonym ustr = "int list"

definition u :: "string \<Rightarrow> ustr" where
  "u s = map of_char s"

text \<open>The code points for which \<open>str.isspace\<close> holds: what \<open>str.strip()\<close> removes.\<close>

definition isspace :: "int \<Rightarrow> bool" where
  "isspace c \<longleftrightarrow>
     (0x09 \<le> c \<and> c \<le> 0x0D) \<or> (0x1C \<le> c \<and> c \<le> 0x20) \<or> c = 0x85 \<or> c = 0xA0 \<or>
     c = 0x1680 \<or> (0x2000 \<le> c \<and> c \<le> 0x200A) \<or> c = 0x2028 \<or> c = 0x2029 \<or>
     c = 0x202F \<or> c = 0x205F \<or> c = 0x3000"

definition strip :: "ustr \<Rightarrow> ustr" where
  "strip s = rev (dropWhile isspace (rev (dropWhile isspace s)))"

definition endswith :: "ustr \<Rightarrow> ustr \<Rightarrow> bool" where
  "endswith s suffix \<longleftrightarrow>
     length suffix \<le> length s \<and> drop (length s - length suffix) s = suffix"

text \<open>\<open>s[:-n]\<close> for \<open>n > 0\<close>.\<close>

definition drop_last :: "nat \<Rightarrow> ustr \<Rightarrow> ustr" where
  "drop_last n s = take (length s - n) s"

fun dec_digits :: "nat \<Rightarrow> ustr" where
  "dec_digits n = (if n < 10 then [0x30 + int n] else dec_digits (n div 10) @ [0x30 + int (n mod 10)])"

text \<open>\<open>str(n)\<close> for an integer.\<close>

definition str_int :: "int \<Rightarrow> ustr" where
  "str_int n = (if n < 0 then 0x2D # dec_digits (nat (- n)) else dec_digits (nat n))"

text \<open>\<open>f"{n:02d}"\<close> for \<open>n \<ge> 0\<close>.\<close>

definition pad2 :: "nat \<Rightarrow> ustr" where
  "pad2 n = (if n < 10 then 0x30 # dec_digits n else dec_digits n)"

section \<open>Reference tables\<close>

definition K_seoul :: ustr where "K_seoul = [0xC11C, 0xC6B8]"
definition K_busan :: ustr where "K_busan = [0xBD80, 0xC0B0]"
definition K_daegu :: ustr where "K_daegu = [0xB300, 0xAD6C]"
definition K_incheon :: ustr where "K_incheon = [0xC778, 0xCC9C]"
definition K_gwangju :: ustr where "K_gwangju = [0xAD11, 0xC8FC]"
definition K_daejeon :: ustr where "K_daejeon = [0xB300, 0xC804]"
definition K_ulsan :: ustr where "K_ulsan = [0xC6B8, 0xC0B0]"
definition K_sejong :: ustr where "K_sejong = [0xC138, 0xC885]"

definition CITY_TO_GRID :: "(ustr \<times> int \<times> int) list" where
  "CITY_TO_GRID =
    [(K_seoul, (60, 127)), (K_busan, (98, 76)), (K_daegu, (89, 90)), (K_incheon, (55, 124)),
     (K_gwangju, (58, 74)), (K_daejeon, (67, 100)), (K_ulsan, (102, 84)), (K_sejong, (66, 103))]"

text \<open>The suffixes of \<open>normalize_city\<close>: teukbyeol-jachi-si, teukbyeol-si, gwangyeok-si, si.\<close>

definition K_teukbyeoljachisi :: ustr where
  "K_teukbyeoljachisi = [0xD2B9, 0xBCC4, 0xC790, 0xCE58, 0xC2DC]"
definition K_teukbyeolsi :: ustr where "K_teukbyeolsi = [0xD2B9, 0xBCC4, 0xC2DC]"
definition K_gwangyeoksi :: ustr where "K_gwangyeoksi = [0xAD11, 0xC5ED, 0xC2DC]"
definition K_si :: ustr where "K_si = [0xC2DC]"

definition city_suffixes :: "ustr list" where
  "city_suffixes = [K_teukbyeoljachisi, K_teukbyeolsi, K_gwangyeoksi, K_si]"

section \<open>normalize_city\<close>

text \<open>
  One round of the loop body: \<open>if s.endswith(suffix): s = s[:-len(suffix)]\<close>. The loop
  has no \<open>break\<close>: every suffix of the tuple is tried, in order, on the current \<open>s\<close>.
\<close>

definition strip_suffix :: "ustr \<Rightarrow> ustr \<Rightarrow> ustr" where
  "strip_suffix s suffix = (if endswith s suffix then drop_last (length suffix) s else s)"

definition normalize_city :: "ustr \<Rightarrow> ustr" where
  "normalize_city city =
     (if city = [] then [] else strip (foldl strip_suffix (strip city) city_suffixes))"

section \<open>Values\<close>

text \<open>
  The values decoded from the upstream JSON. \<open>str()\<close> of a number with a fraction or an
  exponent, of a list and of a dict is Python's \<open>repr\<close>, which depends on tables of the
  interpreter; such a value carries the text \<open>str()\<close> gives for it. A dict is the list of
  its key/value pairs, looked up with \<open>map_of\<close>.
\<close>

datatype json =
    JNull
  | JBool bool
  | JInt int
  | JReal ustr
  | JStr ustr
  | JArr ustr "json list"
  | JObj ustr "(ustr \<times> json) list"

fun py_str :: "json \<Rightarrow> ustr" where
  "py_str JNull = u ''None''"
| "py_str (JBool b) = (if b then u ''True'' else u ''False'')"
| "py_str (JInt n) = str_int n"
| "py_str (JReal t) = t"
| "py_str (JStr s) = s"
| "py_str (JArr t xs) = t"
| "py_str (JObj t kvs) = t"

text \<open>The type name Python prints in the message of an \<open>AttributeError\<close>.\<close>

fun type_name :: "json \<Rightarrow> ustr" where
  "type_name JNull = u ''NoneType''"
| "type_name (JBool b) = u ''bool''"
| "type_name (JInt n) = u ''int''"
| "type_name (JReal t) = u ''float''"
| "type_name (JStr s) = u ''str''"
| "type_name (JArr t xs) = u ''list''"
| "type_name (JObj t kvs) = u ''dict''"

text \<open>
  \<open>x.get(key, default)\<close>: a dict answers; on any other value the attribute lookup raises
  \<open>AttributeError\<close>, returned here as \<open>Inl\<close> of the exception's message (the type name
  and the attribute name stand between apostrophes, code point 0x27).
\<close>

definition no_attribute_get :: "json \<Rightarrow> ustr" where
  "no_attribute_get x =
     [0x27] @ type_name x @ [0x27] @ u '' object has no attribute '' @ [0x27] @ u ''get'' @ [0x27]"

definition dict_get :: "(ustr \<times> json) list \<Rightarrow> ustr \<Rightarrow> json \<Rightarrow> json" where
  "dict_get kvs key dflt = (case map_of kvs key of None \<Rightarrow> dflt | Some v \<Rightarrow> v)"

fun py_get :: "json \<Rightarrow> ustr \<Rightarrow> json \<Rightarrow> ustr + json" where
  "py_get (JObj t kvs) key dflt = Inr (dict_get kvs key dflt)"
| "py_get x key dflt = Inl (no_attribute_get x)"

definition empty_dict :: json where
  "empty_dict = JObj (u ''{}'') []"

definition empty_list :: json where
  "empty_list = JArr (u ''[]'') []"

section \<open>Floats\<close>

text \<open>
  A Python float is a binary64 number: a sign and a finite magnitude (a rational that
  binary64 represents exactly), an infinity, or NaN. \<open>binary64\<close> rounds a non-negative
  rational to the nearest representable magnitude, ties to even, as the correctly
  rounded decimal conversion of \<open>float(str)\<close> does; beyond the largest finite number
  the result is an infinity.
\<close>

datatype pyfloat = Finite bool rat | Infinite bool | NaN

definition pow2 :: "int \<Rightarrow> rat" where
  "pow2 e = (if 0 \<le> e then 2 ^ nat e else 1 / 2 ^ nat (- e))"

definition pow10 :: "int \<Rightarrow> rat" where
  "pow10 e = (if 0 \<le> e then 10 ^ nat e else 1 / 10 ^ nat (- e))"

text \<open>\<open>\<lfloor>log\<^sub>2 r\<rfloor>\<close> for \<open>r > 0\<close>, from the bit lengths of numerator and denominator.\<close>

definition ilog2 :: "rat \<Rightarrow> int" where
  "ilog2 r = (let (a, b) = quotient_of r; e = bitlen a - bitlen b
              in if pow2 e \<le> r then e else e - 1)"

definition round_half_even :: "rat \<Rightarrow> int" where
  "round_half_even x =
     (let f = \<lfloor>x\<rfloor>; d = x - of_int f
      in if d < 1 / 2 then f else if 1 / 2 < d then f + 1 else if even f then f else f + 1)"

definition binary64 :: "bool \<Rightarrow> rat \<Rightarrow> pyfloat" where
  "binary64 neg r =
     (if r = 0 then Finite neg 0
      else let q = pow2 (max (ilog2 r) (- 1022) - 52);
               v = of_int (round_half_even (r / q)) * q
           in if 2 ^ 1024 \<le> v then Infinite neg else Finite neg v)"

text \<open>
  \<open>float(s)\<close> for a string, after CPython's \<open>PyFloat_FromString\<close>. First the text is
  made ASCII: an ASCII string is left as it is; in any other string a character below 127
  is kept, a whitespace character becomes a space, a decimal digit of any script becomes
  the ASCII digit of its value, and at any other character the text ends with a question
  mark. \<open>DECIMAL_ZEROS\<close> holds the digit zero of every run of ten decimal digits of the
  Unicode database (version 14.0.0, that of CPython 3.11). Then underscores are removed
  when each stands between two digits, the ASCII whitespace at both ends is dropped, and
  the text must be, in full, a sign and \<open>inf\<close>, \<open>infinity\<close> or \<open>nan\<close> in any case, or a
  sign and a decimal literal with an optional exponent. \<open>None\<close> is \<open>ValueError\<close>.
\<close>

definition DECIMAL_ZEROS :: "int list" where
  "DECIMAL_ZEROS =
    [0x30, 0x660, 0x6F0, 0x7C0, 0x966, 0x9E6, 0xA66, 0xAE6, 0xB66, 0xBE6, 0xC66, 0xCE6,
     0xD66, 0xDE6, 0xE50, 0xED0, 0xF20, 0x1040, 0x1090, 0x17E0, 0x1810, 0x1946, 0x19D0,
     0x1A80, 0x1A90, 0x1B50, 0x1BB0, 0x1C40, 0x1C50, 0xA620, 0xA8D0, 0xA900, 0xA9D0,
     0xA9F0, 0xAA50, 0xABF0, 0xFF10, 0x104A0, 0x10D30, 0x11066, 0x110F0, 0x11136, 0x111D0,
     0x112F0, 0x11450, 0x114D0, 0x11650, 0x116C0, 0x11730, 0x118E0, 0x11950, 0x11C50,
     0x11D50, 0x11DA0, 0x16A60, 0x16AC0, 0x16B50, 0x1D7CE, 0x1D7D8, 0x1D7E2, 0x1D7EC,
     0x1D7F6, 0x1E140, 0x1E2F0, 0x1E950, 0x1FBF0]"

definition to_decimal :: "int \<Rightarrow> int option" where
  "to_decimal c =
     (case List.find (\<lambda>z. z \<le> c \<and> c \<le> z + 9) DECIMAL_ZEROS of
        None \<Rightarrow> None | Some z \<Rightarrow> Some (c - z))"

fun transform_chars :: "ustr \<Rightarrow> ustr" where
  "transform_chars [] = []"
| "transform_chars (c # cs) =
     (if c < 127 then c # transform_chars cs
      else if isspace c then 0x20 # transform_chars cs
      else case to_decimal c of None \<Rightarrow> [0x3F]
           | Some d \<Rightarrow> (0x30 + d) # transform_chars cs)"

definition transform_decimal_and_space_to_ascii :: "ustr \<Rightarrow> ustr" where
  "transform_decimal_and_space_to_ascii s =
     (if list_all (\<lambda>c. c < 128) s then s else transform_chars s)"

definition is_ascii_space :: "int \<Rightarrow> bool" where
  "is_ascii_space c \<longleftrightarrow> (0x09 \<le> c \<and> c \<le> 0x0D) \<or> c = 0x20"

definition strip_ascii :: "ustr \<Rightarrow> ustr" where
  "strip_ascii s = rev (dropWhile is_ascii_space (rev (dropWhile is_ascii_space s)))"

definition is_digit :: "int \<Rightarrow> bool" where
  "is_digit c \<longleftrightarrow> 0x30 \<le> c \<and> c \<le> 0x39"

fun remove_underscores :: "int \<Rightarrow> ustr \<Rightarrow> ustr option" where
  "remove_underscores prev [] = (if prev = 0x5F then None else Some [])"
| "remove_underscores prev (c # cs) =
     (if c = 0x5F then (if is_digit prev then remove_underscores c cs else None)
      else if prev = 0x5F \<and> \<not> is_digit c then None
      else map_option ((#) c) (remove_underscores c cs))"

definition take_sign :: "ustr \<Rightarrow> bool \<times> ustr" where
  "take_sign s = (case s of [] \<Rightarrow> (False, [])
     | c # cs \<Rightarrow> if c = 0x2D then (True, cs) else if c = 0x2B then (False, cs) else (False, s))"

definition digits_value :: "ustr \<Rightarrow> int" where
  "digits_value ds = foldl (\<lambda>a c. 10 * a + (c - 0x30)) 0 ds"

definition lower :: "int \<Rightarrow> int" where
  "lower c = (if 0x41 \<le> c \<and> c \<le> 0x5A then c + 0x20 else c)"

text \<open>The exponent part: nothing, or \<open>e\<close>/\<open>E\<close>, an optional sign and at least one digit.\<close>

definition parse_exponent :: "ustr \<Rightarrow> int option" where
  "parse_exponent s = (case s of [] \<Rightarrow> Some 0
     | c # cs \<Rightarrow>
         if c = 0x65 \<or> c = 0x45 then
           (let (neg, ds) = take_sign cs
            in if ds \<noteq> [] \<and> list_all is_digit ds
               then Some (if neg then - digits_value ds else digits_value ds) else None)
         else None)"

definition parse_decimal :: "ustr \<Rightarrow> rat option" where
  "parse_decimal s =
     (let ip = takeWhile is_digit s; r1 = dropWhile is_digit s;
          (fp, r2) = (case r1 of [] \<Rightarrow> ([], r1)
                      | c # cs \<Rightarrow> if c = 0x2E then (takeWhile is_digit cs, dropWhile is_digit cs)
                                  else ([], r1))
      in if ip = [] \<and> fp = [] then None
         else case parse_exponent r2 of None \<Rightarrow> None
              | Some e \<Rightarrow> Some (of_int (digits_value (ip @ fp)) * pow10 (e - int (length fp))))"

definition py_float :: "ustr \<Rightarrow> pyfloat option" where
  "py_float s =
     (case remove_underscores 0 (transform_decimal_and_space_to_ascii s) of None \<Rightarrow> None
      | Some t \<Rightarrow>
          let (neg, body) = take_sign (strip_ascii t); low = map lower body
          in if low = u ''inf'' \<or> low = u ''infinity'' then Some (Infinite neg)
             else if low = u ''nan'' then Some NaN
             else map_option (binary64 neg) (parse_decimal body))"

text \<open>
  \<open>int(x)\<close> for a float truncates towards zero; an infinity raises \<open>OverflowError\<close> and
  NaN raises \<open>ValueError\<close> (\<open>None\<close>).
\<close>

fun py_int :: "pyfloat \<Rightarrow> int option" where
  "py_int (Finite neg m) = Some (if neg then - \<lfloor>m\<rfloor> else \<lfloor>m\<rfloor>)"
| "py_int (Infinite neg) = None"
| "py_int NaN = None"

section \<open>safe_cast\<close>

text \<open>
  \<open>meta_cast\<close> is the class \<open>int\<close> or \<open>float\<close> at every call of the source
  (\<open>CATEGORY_META\<close> holds no other, and \<open>normalize_observations\<close> passes \<open>int\<close>). The
  result is a Python value: one of the decoded values (\<open>None\<close>, the integer, or \<open>raw\<close>
  itself when the conversion raised) or a float.
\<close>

datatype cast_kind = CastInt | CastFloat

datatype pyval = Val json | Float pyfloat

definition safe_cast :: "cast_kind \<Rightarrow> json \<Rightarrow> pyval" where
  "safe_cast meta_cast raw =
     (if raw = JNull then Val JNull
      else let s = strip (py_str raw)
           in if s = [] then Val JNull
              else case meta_cast of
                     CastInt \<Rightarrow>
                       (case py_float s of None \<Rightarrow> Val raw
                        | Some x \<Rightarrow> (case py_int x of None \<Rightarrow> Val raw | Some n \<Rightarrow> Val (JInt n)))
                   | CastFloat \<Rightarrow>
                       (case py_float s of None \<Rightarrow> Val raw | Some x \<Rightarrow> Float x))"

section \<open>wind_deg_to_16dir_ko\<close>

definition WIND_DIR_16_KO :: "ustr list" where
  "WIND_DIR_16_KO =
    [[0xBD81], [0xBD81, 0xBD81, 0xB3D9], [0xBD81, 0xB3D9], [0xB3D9, 0xBD81, 0xB3D9],
     [0xB3D9], [0xB3D9, 0xB0A8, 0xB3D9], [0xB0A8, 0xB3D9], [0xB0A8, 0xB0A8, 0xB3D9],
     [0xB0A8], [0xB0A8, 0xB0A8, 0xC11C], [0xB0A8, 0xC11C], [0xC11C, 0xB0A8, 0xC11C],
     [0xC11C], [0xC11C, 0xBD81, 0xC11C], [0xBD81, 0xC11C], [0xBD81, 0xBD81, 0xC11C]]"

definition K_buk :: ustr where "K_buk = [0xBD81]"
definition K_dong :: ustr where "K_dong = [0xB3D9]"

text \<open>
  \<open>idx = int(((deg % 360) + 11.25) // 22.5) % 16\<close>. The argument is declared
  \<open>Optional[int]\<close>, and \<open>normalize_observations\<close> passes an \<open>int\<close>. For an integer
  \<open>deg\<close>, \<open>deg % 360\<close> is an integer from 0 to 359 and the float operations on it are
  exact (every intermediate value is a multiple of 0.25 below 400), so the index is
  computed in the rationals.
\<close>

definition wind_deg_to_16dir_ko :: "int option \<Rightarrow> ustr option" where
  "wind_deg_to_16dir_ko deg =
     (case deg of None \<Rightarrow> None
      | Some d \<Rightarrow>
          Some (WIND_DIR_16_KO ! nat (\<lfloor>(of_int (d mod 360) + 1125 / 100 :: rat) / (225 / 10)\<rfloor> mod 16)))"

text \<open>
  The same line when the argument is a float: every operation is a binary64 operation.
  \<open>float_value\<close> is the number a finite float stands for, and \<open>round64\<close> the float
  nearest to a number. \<open>fmod\<close> is the C function, which is exact: the remainder has the
  sign of the dividend. \<open>x % 360\<close> adds 360 to a negative remainder, and the sum is rounded.
  \<open>x // w\<close> for a positive \<open>w\<close> subtracts the remainder from \<open>x\<close> and divides by \<open>w\<close>,
  rounding both times, subtracts one when the remainder is negative, and takes the whole
  number below the quotient, or the one above when the quotient exceeds it by more than
  a half. An infinity or NaN gives NaN at every step, and \<open>int\<close> of NaN raises
  \<open>ValueError\<close> (\<open>None\<close>).
\<close>

fun float_value :: "pyfloat \<Rightarrow> rat option" where
  "float_value (Finite neg m) = Some (if neg then - m else m)"
| "float_value (Infinite neg) = None"
| "float_value NaN = None"

definition round64 :: "rat \<Rightarrow> pyfloat" where
  "round64 r = binary64 (r < 0) \<bar>r\<bar>"

definition fmod :: "rat \<Rightarrow> rat \<Rightarrow> rat" where
  "fmod x y = x - y * of_int (if x / y < 0 then \<lceil>x / y\<rceil> else \<lfloor>x / y\<rfloor>)"

definition float_rem_360 :: "rat \<Rightarrow> pyfloat" where
  "float_rem_360 x =
     (let m = fmod x 360 in if m < 0 then round64 (m + 360) else Finite False m)"

definition float_floor_div :: "rat \<Rightarrow> rat \<Rightarrow> rat option" where
  "float_floor_div x w =
     (let m = fmod x w
      in Option.bind (float_value (round64 (x - m))) (\<lambda>d.
         Option.bind (float_value (round64 (d / w))) (\<lambda>q.
         Option.bind (if m < 0 then float_value (round64 (q - 1)) else Some q) (\<lambda>quot.
           Some (let f = of_int \<lfloor>quot\<rfloor> in if 1 / 2 < quot - f then f + 1 else f)))))"

definition wind_idx_float :: "pyfloat \<Rightarrow> nat option" where
  "wind_idx_float deg =
     Option.bind (float_value deg) (\<lambda>x.
     Option.bind (float_value (float_rem_360 x)) (\<lambda>a.
     Option.bind (float_value (round64 (a + 1125 / 100))) (\<lambda>b.
     Option.bind (float_floor_div b (225 / 10)) (\<lambda>c.
       Some (nat (\<lfloor>c\<rfloor> mod 16))))))"

definition wind_deg_to_16dir_ko_float :: "pyfloat \<Rightarrow> ustr option" where
  "wind_deg_to_16dir_ko_float deg = map_option (\<lambda>idx. WIND_DIR_16_KO ! idx) (wind_idx_float deg)"

section \<open>Observation tables\<close>

text \<open>
  Group names: gion (temperature), seupdo (humidity), gangsu (precipitation), baram
  (wind), gita (other).
\<close>

definition K_gion :: ustr where "K_gion = [0xAE30, 0xC628]"
definition K_seupdo :: ustr where "K_seupdo = [0xC2B5, 0xB3C4]"
definition K_gangsu :: ustr where "K_gangsu = [0xAC15, 0xC218]"
definition K_baram :: ustr where "K_baram = [0xBC14, 0xB78C]"
definition K_gita :: ustr where "K_gita = [0xAE30, 0xD0C0]"

text \<open>
  Labels: 1-sigan gangsuryang (1-hour precipitation), gangsu-hyeongtae (precipitation
  type), punghyang (wind direction), pungsok (wind speed), dongseo-baram-seongbun and
  nambuk-baram-seongbun (east-west and north-south wind component).
\<close>

definition K_gangsuryang_1h :: ustr where
  "K_gangsuryang_1h = [0x31, 0xC2DC, 0xAC04, 0x20, 0xAC15, 0xC218, 0xB7C9]"
definition K_gangsuhyeongtae :: ustr where
  "K_gangsuhyeongtae = [0xAC15, 0xC218, 0xD615, 0xD0DC]"
definition K_punghyang :: ustr where "K_punghyang = [0xD48D, 0xD5A5]"
definition K_pungsok :: ustr where "K_pungsok = [0xD48D, 0xC18D]"
definition K_dongseobaram :: ustr where
  "K_dongseobaram = [0xB3D9, 0xC11C, 0xBC14, 0xB78C, 0xC131, 0xBD84]"
definition K_nambukbaram :: ustr where
  "K_nambukbaram = [0xB0A8, 0xBD81, 0xBC14, 0xB78C, 0xC131, 0xBD84]"

text \<open>Units: the degree-Celsius sign, and kodeu (code).\<close>

definition K_celsius :: ustr where "K_celsius = [0x2103]"
definition K_kodeu :: ustr where "K_kodeu = [0xCF54, 0xB4DC]"

record meta =
  m_ko :: ustr
  m_unit :: ustr
  m_group :: ustr
  m_cast :: cast_kind

definition CATEGORY_META :: "(ustr \<times> meta) list" where
  "CATEGORY_META =
    [(u ''T1H'', \<lparr>m_ko = K_gion, m_unit = K_celsius, m_group = K_gion, m_cast = CastFloat\<rparr>),
     (u ''REH'', \<lparr>m_ko = K_seupdo, m_unit = u ''%'', m_group = K_seupdo, m_cast = CastInt\<rparr>),
     (u ''RN1'', \<lparr>m_ko = K_gangsuryang_1h, m_unit = u ''mm'', m_group = K_gangsu, m_cast = CastFloat\<rparr>),
     (u ''PTY'', \<lparr>m_ko = K_gangsuhyeongtae, m_unit = K_kodeu, m_group = K_gangsu, m_cast = CastInt\<rparr>),
     (u ''VEC'', \<lparr>m_ko = K_punghyang, m_unit = u ''deg'', m_group = K_baram, m_cast = CastInt\<rparr>),
     (u ''WSD'', \<lparr>m_ko = K_pungsok, m_unit = u ''m/s'', m_group = K_baram, m_cast = CastFloat\<rparr>),
     (u ''UUU'', \<lparr>m_ko = K_dongseobaram, m_unit = u ''m/s'', m_group = K_baram, m_cast = CastFloat\<rparr>),
     (u ''VVV'', \<lparr>m_ko = K_nambukbaram, m_unit = u ''m/s'', m_group = K_baram, m_cast = CastFloat\<rparr>)]"

text \<open>
  Precipitation types: eopseum (none), bi (rain), bi/nun (rain/snow), nun (snow), sonagi
  (shower), bitbangul (raindrops), bitbangul/nunnallim, nunnallim (snow flurry).
  \<open>K_al_su_eopseum\<close> is al su eopseum (unknown).
\<close>

definition K_eopseum :: ustr where "K_eopseum = [0xC5C6, 0xC74C]"

definition PTY_MAP_ULTRA :: "(int \<times> ustr) list" where
  "PTY_MAP_ULTRA =
    [(0, K_eopseum),
     (1, [0xBE44]),
     (2, [0xBE44, 0x2F, 0xB208]),
     (3, [0xB208]),
     (4, [0xC18C, 0xB098, 0xAE30]),
     (5, [0xBE57, 0xBC29, 0xC6B8]),
     (6, [0xBE57, 0xBC29, 0xC6B8, 0x2F, 0xB208, 0xB0A0, 0xB9BC]),
     (7, [0xB208, 0xB0A0, 0xB9BC])]"

definition K_al_su_eopseum :: ustr where
  "K_al_su_eopseum = [0xC54C, 0x20, 0xC218, 0x20, 0xC5C6, 0xC74C]"

section \<open>extract_items\<close>

text \<open>
  Every exception inside the \<open>try\<close> gives the empty list; so does an \<open>item\<close> that is
  neither a list nor a dict. The elements of a list are returned as they are.
\<close>

definition extract_items :: "json \<Rightarrow> json list" where
  "extract_items api_json =
     (case py_get api_json (u ''response'') empty_dict of Inl e \<Rightarrow> []
      | Inr response \<Rightarrow>
     (case py_get response (u ''body'') empty_dict of Inl e \<Rightarrow> []
      | Inr body \<Rightarrow>
     (case py_get body (u ''items'') empty_dict of Inl e \<Rightarrow> []
      | Inr items \<Rightarrow>
     (case py_get items (u ''item'') empty_list of Inl e \<Rightarrow> []
      | Inr item \<Rightarrow>
     (case item of JArr t xs \<Rightarrow> xs | JObj t kvs \<Rightarrow> [item] | _ \<Rightarrow> [])))))"

section \<open>normalize_observations\<close>

text \<open>
  An entry is the dict with the keys kodeu (code), gap (value), danwi (unit) and, when
  set, seolmyeong (description) and 16-bangwi (16-point direction). A missing key is
  \<open>None\<close> in the last two fields; \<open>e_unit\<close> is the value \<open>None\<close> for an unknown code.
\<close>

record entry =
  e_code :: ustr
  e_value :: pyval
  e_unit :: "ustr option"
  e_description :: "ustr option"
  e_dir16 :: "ustr option"

text \<open>
  \<open>isinstance(v, int)\<close>: an integer, or a bool (a subclass of \<open>int\<close>, counting as 0 or
  1). The result is the integer the value counts as.
\<close>

fun as_int :: "pyval \<Rightarrow> int option" where
  "as_int (Val (JInt n)) = Some n"
| "as_int (Val (JBool b)) = Some (if b then 1 else 0)"
| "as_int v = None"

text \<open>
  \<open>v if isinstance(v, int) else safe_cast(int, raw_val)\<close>, as used for \<open>pty_int\<close> and
  \<open>vec_int\<close>.
\<close>

definition int_or_cast :: "pyval \<Rightarrow> json \<Rightarrow> pyval" where
  "int_or_cast val raw_val = (if as_int val \<noteq> None then val else safe_cast CastInt raw_val)"

text \<open>
  \<open>PTY_MAP_ULTRA.get(pty_int, f"...({pty_int})")\<close> when \<open>pty_int\<close> is an \<open>int\<close> (a bool
  is looked up as 0 or 1 and printed as \<open>True\<close> or \<open>False\<close>), and the plain text otherwise.
\<close>

fun pty_description :: "pyval \<Rightarrow> ustr" where
  "pty_description (Val (JInt n)) =
     (case map_of PTY_MAP_ULTRA n of Some d \<Rightarrow> d
      | None \<Rightarrow> K_al_su_eopseum @ u ''('' @ str_int n @ u '')'')"
| "pty_description (Val (JBool b)) =
     (case map_of PTY_MAP_ULTRA (if b then 1 else 0) of Some d \<Rightarrow> d
      | None \<Rightarrow> K_al_su_eopseum @ u ''('' @ py_str (JBool b) @ u '')'')"
| "pty_description v = K_al_su_eopseum"

text \<open>
  The first part of the loop body, up to the two decorations: the group, the label
  \<open>name_ko\<close> and the entry of one item. \<open>Inl\<close> is the message of the \<open>AttributeError\<close>
  that \<open>it.get\<close> raises on an item that is not a dict.
\<close>

definition describe_item :: "json \<Rightarrow> ustr + (ustr \<times> ustr \<times> entry)" where
  "describe_item it =
     (case py_get it (u ''category'') (JStr []) of Inl e \<Rightarrow> Inl e
      | Inr category \<Rightarrow>
     (case py_get it (u ''obsrValue'') JNull of Inl e \<Rightarrow> Inl e
      | Inr raw_val \<Rightarrow>
          let code = strip (py_str category);
              (name_ko, unit', group', val) =
                (case map_of CATEGORY_META code of
                   Some m \<Rightarrow> (m_ko m, Some (m_unit m), m_group m, safe_cast (m_cast m) raw_val)
                 | None \<Rightarrow> (if code = [] then u ''UNKNOWN'' else code, None, K_gita, Val raw_val));
              entry0 = \<lparr>e_code = code, e_value = val, e_unit = unit',
                        e_description = None, e_dir16 = None\<rparr>;
              entry1 = (if code = u ''PTY''
                        then entry0\<lparr>e_description := Some (pty_description (int_or_cast val raw_val))\<rparr>
                        else entry0);
              entry2 = (if code = u ''VEC''
                        then (case as_int (int_or_cast val raw_val) of
                                Some n \<Rightarrow> entry1\<lparr>e_dir16 := wind_deg_to_16dir_ko (Some n)\<rparr>
                              | None \<Rightarrow> entry1)
                        else entry1)
          in Inr (group', name_ko, entry2)))"

type_synonym grouped = "(ustr \<times> (ustr \<times> entry) list) list"

text \<open>
  A dict of the result is the list of its key/value pairs in insertion order;
  \<open>d[k] = v\<close> replaces the value of a key that is there, in place, and appends a new key.
\<close>

fun dict_set :: "'k \<Rightarrow> 'v \<Rightarrow> ('k \<times> 'v) list \<Rightarrow> ('k \<times> 'v) list" where
  "dict_set k v [] = [(k, v)]"
| "dict_set k v (p # ps) = (if fst p = k then (k, v) # ps else p # dict_set k v ps)"

definition dict_has :: "'k \<Rightarrow> ('k \<times> 'v) list \<Rightarrow> bool" where
  "dict_has k d \<longleftrightarrow> map_of d k \<noteq> None"

text \<open>
  The second part of the loop body: the group falls back to gita, the key is the label,
  or the label followed by the code in parentheses when the label is a key of the group
  already, and the entry is stored under the key. \<open>grouped[group]\<close> on a missing group
  would raise \<open>KeyError\<close>, whose text is the key between apostrophes.
\<close>

definition store_entry :: "grouped \<Rightarrow> ustr \<Rightarrow> ustr \<Rightarrow> entry \<Rightarrow> ustr + grouped" where
  "store_entry grouped group0 name_ko e =
     (let group' = (if dict_has group0 grouped then group0 else K_gita)
      in case map_of grouped group' of
           None \<Rightarrow> Inl ([0x27] @ group' @ [0x27])
         | Some members \<Rightarrow>
             let key = (if dict_has name_ko members
                        then name_ko @ u ''('' @ e_code e @ u '')'' else name_ko)
             in Inr (dict_set group' (dict_set key e members) grouped))"

definition normalize_item :: "grouped \<Rightarrow> json \<Rightarrow> ustr + grouped" where
  "normalize_item grouped it =
     (case describe_item it of Inl err \<Rightarrow> Inl err
      | Inr (group', name_ko, e) \<Rightarrow> store_entry grouped group' name_ko e)"

fun normalize_loop :: "grouped \<Rightarrow> json list \<Rightarrow> ustr + grouped" where
  "normalize_loop grouped [] = Inr grouped"
| "normalize_loop grouped (it # items) =
     (case normalize_item grouped it of Inl err \<Rightarrow> Inl err
      | Inr grouped' \<Rightarrow> normalize_loop grouped' items)"

definition empty_groups :: grouped where
  "empty_groups = [(K_gion, []), (K_seupdo, []), (K_gangsu, []), (K_baram, []), (K_gita, [])]"

definition normalize_observations :: "json list \<Rightarrow> ustr + grouped" where
  "normalize_observations items = normalize_loop empty_groups items"

section \<open>Dates and times\<close>

text \<open>
  \<open>now_kst()\<close> is a \<open>datetime\<close>: its calendar fields. \<open>valid_datetime\<close> is the range
  the class accepts (years 1 to 9999, a day of the month that exists).
\<close>

record datetime =
  dt_year :: nat
  dt_month :: nat
  dt_day :: nat
  dt_hour :: nat
  dt_minute :: nat
  dt_second :: nat
  dt_microsecond :: nat

definition is_leap :: "nat \<Rightarrow> bool" where
  "is_leap y \<longleftrightarrow> y mod 4 = 0 \<and> (y mod 100 \<noteq> 0 \<or> y mod 400 = 0)"

definition days_in_month :: "nat \<Rightarrow> nat \<Rightarrow> nat" where
  "days_in_month y m =
     (if m = 2 then (if is_leap y then 29 else 28)
      else if m = 4 \<or> m = 6 \<or> m = 9 \<or> m = 11 then 30 else 31)"

definition valid_datetime :: "datetime \<Rightarrow> bool" where
  "valid_datetime d \<longleftrightarrow>
     1 \<le> dt_year d \<and> dt_year d \<le> 9999 \<and> 1 \<le> dt_month d \<and> dt_month d \<le> 12 \<and>
     1 \<le> dt_day d \<and> dt_day d \<le> days_in_month (dt_year d) (dt_month d) \<and>
     dt_hour d < 24 \<and> dt_minute d < 60 \<and> dt_second d < 60 \<and> dt_microsecond d < 1000000"

text \<open>\<open>d.strftime("%Y%m%d")\<close>: four digits of the year, two of the month, two of the day.\<close>

definition pad4 :: "nat \<Rightarrow> ustr" where
  "pad4 n = replicate (4 - length (dec_digits n)) 0x30 @ dec_digits n"

definition as_base_date :: "datetime \<Rightarrow> ustr" where
  "as_base_date d = pad4 (dt_year d) @ pad2 (dt_month d) @ pad2 (dt_day d)"

definition as_base_time_hour :: "datetime \<Rightarrow> ustr" where
  "as_base_time_hour d = pad2 (dt_hour d) @ u ''00''"

text \<open>\<open>now.replace(minute=0, second=0, microsecond=0)\<close>.\<close>

definition hour_floor :: "datetime \<Rightarrow> datetime" where
  "hour_floor now = now\<lparr>dt_minute := 0, dt_second := 0, dt_microsecond := 0\<rparr>"

text \<open>
  \<open>d - timedelta(hours=1)\<close> on the wall clock of a datetime at the top of an hour. Before
  the first hour of year 1 there is no datetime: the subtraction raises
  \<open>OverflowError\<close> (\<open>None\<close>).
\<close>

definition minus_one_hour :: "datetime \<Rightarrow> datetime option" where
  "minus_one_hour d =
     (if 0 < dt_hour d then Some (d\<lparr>dt_hour := dt_hour d - 1\<rparr>)
      else if 1 < dt_day d then Some (d\<lparr>dt_day := dt_day d - 1, dt_hour := 23\<rparr>)
      else if 1 < dt_month d
        then Some (d\<lparr>dt_month := dt_month d - 1,
                     dt_day := days_in_month (dt_year d) (dt_month d - 1), dt_hour := 23\<rparr>)
      else if 1 < dt_year d
        then Some (d\<lparr>dt_year := dt_year d - 1, dt_month := 12, dt_day := 31, dt_hour := 23\<rparr>)
      else None)"

section \<open>The upstream service\<close>

text \<open>
  \<open>fetch_ultra_srt_ncst\<close> sends one GET request with these parameters and returns the
  decoded body, or raises. What the service answers is a parameter of the model: the
  answer to a request may depend on the request and on how many were sent before. The
  requests sent are kept in a list, in order.
\<close>

record request =
  r_serviceKey :: ustr
  r_numOfRows :: ustr
  r_pageNo :: ustr
  r_dataType :: ustr
  r_base_date :: ustr
  r_base_time :: ustr
  r_nx :: ustr
  r_ny :: ustr

text \<open>
  The ways the call ends: \<open>httpx.HTTPStatusError\<close> from \<open>raise_for_status\<close>,
  \<open>httpx.RequestError\<close> from the transport, any other exception (as \<open>r.json()\<close> raises
  on a body that is not JSON), each with the text \<open>str(e)\<close>, or the decoded JSON.
\<close>

datatype fetched = HTTPStatusError ustr | RequestError ustr | OtherException ustr | Returned json

type_synonym upstream = "nat \<Rightarrow> request \<Rightarrow> fetched"

definition request_params :: "ustr \<Rightarrow> ustr \<Rightarrow> ustr \<Rightarrow> int \<Rightarrow> int \<Rightarrow> request" where
  "request_params service_key base_date base_time nx ny =
     \<lparr>r_serviceKey = service_key, r_numOfRows = u ''1000'', r_pageNo = u ''1'',
      r_dataType = u ''JSON'', r_base_date = base_date, r_base_time = base_time,
      r_nx = str_int nx, r_ny = str_int ny\<rparr>"

definition fetch_ultra_srt_ncst ::
  "upstream \<Rightarrow> request list \<Rightarrow> ustr \<Rightarrow> ustr \<Rightarrow> ustr \<Rightarrow> int \<Rightarrow> int \<Rightarrow> fetched \<times> request list" where
  "fetch_ultra_srt_ncst service sent service_key base_date base_time nx ny =
     (let params = request_params service_key base_date base_time nx ny
      in (service (length sent) params, sent @ [params]))"

section \<open>get_now_weather\<close>

text \<open>
  Messages: jiwonhaji anneun jiyeogimnida (the region is not supported), hwangyeong
  byeonsuga bieo itseumnida (the environment variable is empty), jeongsang eungdabijiman
  deiteoga bieoitseumnida (a normal response, but the data is empty), al su eomneun oryu
  (unknown error).
\<close>

definition K_unsupported_region :: ustr where
  "K_unsupported_region =
     [0xC9C0, 0xC6D0, 0xD558, 0xC9C0, 0x20, 0xC54A, 0xB294, 0x20, 0xC9C0, 0xC5ED, 0xC785,
      0xB2C8, 0xB2E4, 0x2E]"

definition K_env_is_empty :: ustr where
  "K_env_is_empty =
     [0x20, 0xD658, 0xACBD, 0xBCC0, 0xC218, 0xAC00, 0x20, 0xBE44, 0xC5B4, 0x20, 0xC788, 0xC2B5,
      0xB2C8, 0xB2E4, 0x2E]"

definition K_empty_data :: ustr where
  "K_empty_data =
     [0xC815, 0xC0C1, 0x20, 0xC751, 0xB2F5, 0xC774, 0xC9C0, 0xB9CC, 0x20, 0xB370, 0xC774, 0xD130,
      0xAC00, 0x20, 0xBE44, 0xC5B4, 0xC788, 0xC2B5, 0xB2C8, 0xB2E4]"

definition K_unknown_error :: ustr where
  "K_unknown_error = [0xC54C, 0x20, 0xC218, 0x20, 0xC5C6, 0xB294, 0x20, 0xC624, 0xB958]"

text \<open>
  \<open>_need_env\<close>: the environment is a map from names to values; \<open>Inl\<close> is the message of
  the \<open>RuntimeError\<close>.
\<close>

definition need_env :: "(ustr \<rightharpoonup> ustr) \<Rightarrow> ustr \<Rightarrow> ustr + ustr" where
  "need_env env name =
     (let v = strip (case env name of None \<Rightarrow> [] | Some x \<Rightarrow> x)
      in if v = [] then Inl (name @ K_env_is_empty) else Inr v)"

record attempt =
  a_base_date :: ustr
  a_base_time :: ustr
  a_resultCode :: ustr
  a_resultMsg :: ustr
  a_count :: nat

text \<open>The success dict: jiyeok (region), gyeokja (grid), balpyo (issued), silhwang (observed).\<close>

record success =
  s_region :: ustr
  s_grid :: "int \<times> int"
  s_base_date :: ustr
  s_base_time :: ustr
  s_observed :: grouped
  s_attempts :: "attempt list"

record failure =
  f_error :: ustr
  f_region :: ustr
  f_grid :: "int \<times> int"
  f_base_date :: ustr
  f_candidate_times :: "ustr list"
  f_attempts :: "attempt list"

record unsupported =
  n_error :: ustr
  n_input :: ustr
  n_normalized :: ustr
  n_supported_cities :: "ustr list"

text \<open>
  The dicts \<open>get_now_weather\<close> returns: the one with only \<open>error\<close> when the key is not
  configured, the unsupported-region one, the success and the failure after the loop.
  \<open>ok\<close> is true in the success dict alone.
\<close>

datatype reply = NotConfigured ustr | Unsupported unsupported | Success success | Failure failure

fun ok :: "reply \<Rightarrow> bool" where
  "ok (Success s) = True"
| "ok r = False"

text \<open>The variables the loop updates, and the requests sent so far.\<close>

record loop_state =
  attempts :: "attempt list"
  last_error :: "ustr option"
  sent :: "request list"

text \<open>
  Lines 373 to 375: the result code and message of the header. A \<open>.get\<close> on a value that
  is not a dict raises (\<open>Inl\<close>), and the catch-all handler of the loop takes it.
\<close>

definition read_header :: "json \<Rightarrow> ustr + (ustr \<times> ustr)" where
  "read_header api_json =
     (case py_get api_json (u ''response'') empty_dict of Inl e \<Rightarrow> Inl e
      | Inr response \<Rightarrow>
     (case py_get response (u ''header'') empty_dict of Inl e \<Rightarrow> Inl e
      | Inr header \<Rightarrow>
     (case py_get header (u ''resultCode'') (JStr []) of Inl e \<Rightarrow> Inl e
      | Inr code \<Rightarrow>
     (case py_get header (u ''resultMsg'') (JStr []) of Inl e \<Rightarrow> Inl e
      | Inr msg \<Rightarrow> Inr (strip (py_str code), strip (py_str msg))))))"

definition empty_data_message :: "ustr \<Rightarrow> nat \<Rightarrow> ustr" where
  "empty_data_message result_code n =
     K_empty_data @ u ''(resultCode='' @ result_code @ u '', count='' @ str_int (int n) @ u '')''"

text \<open>
  The body of the loop for one candidate whose date is \<open>base_date\<close>: the \<open>try\<close> block and
  its three handlers. The result is the success dict when the function returns from
  inside the loop, and the state after the round.
\<close>

definition try_window ::
  "upstream \<Rightarrow> ustr \<Rightarrow> ustr \<Rightarrow> int \<Rightarrow> int \<Rightarrow> ustr \<Rightarrow> datetime \<Rightarrow> loop_state
     \<Rightarrow> success option \<times> loop_state" where
  "try_window service service_key city_norm nx ny base_date cand_dt st =
     (let base_time = as_base_time_hour cand_dt;
          (res, sent') = fetch_ultra_srt_ncst service (sent st) service_key base_date base_time nx ny
      in case res of
           HTTPStatusError e \<Rightarrow>
             (None, st\<lparr>last_error := Some (u ''HTTPStatusError: '' @ e), sent := sent'\<rparr>)
         | RequestError e \<Rightarrow>
             (None, st\<lparr>last_error := Some (u ''RequestError: '' @ e), sent := sent'\<rparr>)
         | OtherException e \<Rightarrow>
             (None, st\<lparr>last_error := Some (u ''Exception: '' @ e), sent := sent'\<rparr>)
         | Returned api_json \<Rightarrow>
             (case read_header api_json of
                Inl e \<Rightarrow> (None, st\<lparr>last_error := Some (u ''Exception: '' @ e), sent := sent'\<rparr>)
              | Inr (result_code, result_msg) \<Rightarrow>
                  let items = extract_items api_json;
                      attempts' = attempts st @
                        [\<lparr>a_base_date = base_date, a_base_time = base_time,
                          a_resultCode = result_code, a_resultMsg = result_msg,
                          a_count = length items\<rparr>]
                  in if result_code = u ''00'' \<and> items \<noteq> [] then
                       (case normalize_observations items of
                          Inl e \<Rightarrow>
                            (None, \<lparr>attempts = attempts',
                                    last_error = Some (u ''Exception: '' @ e), sent = sent'\<rparr>)
                        | Inr observed \<Rightarrow>
                            (Some \<lparr>s_region = city_norm, s_grid = (nx, ny),
                                   s_base_date = base_date, s_base_time = base_time,
                                   s_observed = observed, s_attempts = attempts'\<rparr>,
                             \<lparr>attempts = attempts', last_error = last_error st, sent = sent'\<rparr>))
                     else
                       (None, \<lparr>attempts = attempts',
                               last_error = Some (empty_data_message result_code (length items)),
                               sent = sent'\<rparr>)))"

text \<open>
  The \<open>for\<close> loop over the candidates: a candidate of another date is skipped
  (\<open>continue\<close>), and a success returns at once.
\<close>

fun window_loop ::
  "upstream \<Rightarrow> ustr \<Rightarrow> ustr \<Rightarrow> int \<Rightarrow> int \<Rightarrow> ustr \<Rightarrow> datetime list \<Rightarrow> loop_state
     \<Rightarrow> success option \<times> loop_state" where
  "window_loop service service_key city_norm nx ny base_date [] st = (None, st)"
| "window_loop service service_key city_norm nx ny base_date (cand_dt # rest) st =
     (if as_base_date cand_dt \<noteq> base_date
      then window_loop service service_key city_norm nx ny base_date rest st
      else case try_window service service_key city_norm nx ny base_date cand_dt st of
             (Some result, st') \<Rightarrow> (Some result, st')
           | (None, st') \<Rightarrow> window_loop service service_key city_norm nx ny base_date rest st')"

text \<open>
  The function returns a dict and has sent the requests listed, or the subtraction of
  the hour raises \<open>OverflowError\<close>, which nothing catches.
\<close>

datatype outcome = Raised_OverflowError | Replied reply "request list"

definition get_now_weather :: "(ustr \<rightharpoonup> ustr) \<Rightarrow> upstream \<Rightarrow> datetime \<Rightarrow> ustr \<Rightarrow> outcome" where
  "get_now_weather env service now city =
     (case need_env env (u ''KMA_SERVICE_KEY'') of
        Inl e \<Rightarrow> Replied (NotConfigured e) []
      | Inr service_key \<Rightarrow>
         (let city_norm = normalize_city city
          in (case map_of CITY_TO_GRID city_norm of
               None \<Rightarrow>
                 Replied (Unsupported \<lparr>n_error = K_unsupported_region, n_input = city,
                            n_normalized = city_norm,
                            n_supported_cities = sort (map fst CITY_TO_GRID)\<rparr>) []
             | Some (nx, ny) \<Rightarrow>
                (let base_date = as_base_date now
                 in (case minus_one_hour (hour_floor now) of
                      None \<Rightarrow> Raised_OverflowError
                    | Some earlier \<Rightarrow>
                       (let candidates = [hour_floor now, earlier]
                        in (case window_loop service service_key city_norm nx ny base_date
                                   candidates \<lparr>attempts = [], last_error = None, sent = []\<rparr> of
                             (Some result, st) \<Rightarrow> Replied (Success result) (sent st)
                           | (None, st) \<Rightarrow>
                               Replied (Failure
                                 \<lparr>f_error = (case last_error st of None \<Rightarrow> K_unknown_error
                                              | Some e \<Rightarrow> if e = [] then K_unknown_error else e),
                                  f_region = city_norm, f_grid = (nx, ny), f_base_date = base_date,
                                  f_candidate_times =
                                    map as_base_time_hour
                                      (filter (\<lambda>c. as_base_date c = base_date) candidates),
                                  f_attempts = attempts st\<rparr>) (sent st))))))))"

section \<open>Notions used in the claims\<close>

text \<open>
  A string is non-numeric when \<open>float()\<close> rejects it, trimmed as \<open>safe_cast\<close> trims it.
\<close>

definition non_numeric :: "ustr \<Rightarrow> bool" where
  "non_numeric s \<longleftrightarrow> py_float (strip s) = None"

text \<open>
  An observation record with a string category and a string value, and a list of three
  records of the same category.
\<close>

definition obs :: "string \<Rightarrow> string \<Rightarrow> json" where
  "obs category value =
     JObj [] [(u ''category'', JStr (u category)), (u ''obsrValue'', JStr (u value))]"

definition three_T1H :: "json list" where
  "three_T1H = [obs ''T1H'' ''1'', obs ''T1H'' ''2'', obs ''T1H'' ''3'']"

definition T1H_entry :: "rat \<Rightarrow> entry" where
  "T1H_entry x = \<lparr>e_code = u ''T1H'', e_value = Float (Finite False x), e_unit = Some K_celsius,
                   e_description = None, e_dir16 = None\<rparr>"

text \<open>
  The Input Normalizer as the specification words it: the longest matching suffix of the
  ordered list (the first that matches, the list being ordered longest first) is
  stripped from the trimmed input, once, and the trimmed core is returned; an input that
  no suffix matches is returned trimmed.
\<close>

definition spec_normalize_city :: "ustr \<Rightarrow> ustr" where
  "spec_normalize_city city =
     (let s = strip city
      in case List.find (endswith s) city_suffixes of
           None \<Rightarrow> s
         | Some suffix \<Rightarrow> strip (drop_last (length suffix) s))"

text \<open>The requests a call of \<open>get_now_weather\<close> has sent.\<close>

fun requests_sent :: "outcome \<Rightarrow> request list" where
  "requests_sent (Replied r reqs) = reqs"
| "requests_sent Raised_OverflowError = []"

text \<open>\<open>isinstance(x, dict)\<close>.\<close>

fun is_dict :: "json \<Rightarrow> bool" where
  "is_dict (JObj t kvs) = True"
| "is_dict x = False"

text \<open>
  A round of the loop accepts what the upstream call gave when the call returned, the
  header could be read, the result code is \<open>00\<close>, the item list is not empty and
  \<open>normalize_observations\<close> did not raise: the condition under which \<open>try_window\<close> returns
  the success dict.
\<close>

definition accepted :: "fetched \<Rightarrow> bool" where
  "accepted res =
     (case res of
        Returned api_json \<Rightarrow>
          (case read_header api_json of
             Inl e \<Rightarrow> False
           | Inr (result_code, result_msg) \<Rightarrow>
               result_code = u ''00'' \<and> extract_items api_json \<noteq> [] \<and>
               (case normalize_observations (extract_items api_json) of
                  Inl e \<Rightarrow> False | Inr observed \<Rightarrow> True))
      | _ \<Rightarrow> False)"

text \<open>The attempt record of a window whose response was parsed.\<close>

definition attempt_record :: "ustr \<Rightarrow> datetime \<Rightarrow> ustr \<Rightarrow> ustr \<Rightarrow> json \<Rightarrow> attempt" where
  "attempt_record base_date cand_dt result_code result_msg api_json =
     \<lparr>a_base_date = base_date, a_base_time = as_base_time_hour cand_dt,
      a_resultCode = result_code, a_resultMsg = result_msg,
      a_count = length (extract_items api_json)\<rparr>"

text \<open>
  Sample inputs: an environment with and without the service key, the local times 13:40
  and 00:15, a response envelope with a result code and an item list, an upstream
  service that is unreachable, one that answers every request with an empty item list,
  and one whose first answer has the result code \<open>00\<close> and an item list holding a string
  instead of a record, and whose later answers hold one record.
\<close>

definition configured_env :: "ustr \<rightharpoonup> ustr" where
  "configured_env name = (if name = u ''KMA_SERVICE_KEY'' then Some (u ''key'') else None)"

definition no_env :: "ustr \<rightharpoonup> ustr" where
  "no_env name = None"

definition t_13_40 :: datetime where
  "t_13_40 = \<lparr>dt_year = 2026, dt_month = 11, dt_day = 3, dt_hour = 13, dt_minute = 40,
              dt_second = 5, dt_microsecond = 7\<rparr>"

definition t_00_15 :: datetime where
  "t_00_15 = \<lparr>dt_year = 2026, dt_month = 3, dt_day = 1, dt_hour = 0, dt_minute = 15,
              dt_second = 0, dt_microsecond = 0\<rparr>"

definition envelope :: "string \<Rightarrow> json list \<Rightarrow> json" where
  "envelope result_code items =
     JObj [] [(u ''response'',
       JObj [] [(u ''header'', JObj [] [(u ''resultCode'', JStr (u result_code)),
                                         (u ''resultMsg'', JStr (u ''OK''))]),
                (u ''body'', JObj [] [(u ''items'', JObj [] [(u ''item'', JArr [] items)])])])]"

definition unreachable :: upstream where
  "unreachable n params = RequestError (u ''timed out'')"

definition no_data :: upstream where
  "no_data n params = Returned (envelope ''00'' [])"

definition string_item_first :: upstream where
  "string_item_first n params =
     (if n = 0 then Returned (envelope ''00'' [JStr (u ''x'')])
      else Returned (envelope ''00'' [obs ''T1H'' ''1'']))"

text \<open>
  The candidate windows as the specification words them: the primary is the current time
  truncated to the top of the hour, the secondary is one hour earlier, and the secondary
  is eligible only when its calendar date is the primary's.
\<close>

definition spec_windows :: "datetime \<Rightarrow> datetime list" where
  "spec_windows now =
     (let primary = hour_floor now
      in case minus_one_hour primary of
           None \<Rightarrow> [primary]
         | Some secondary \<Rightarrow>
             if as_base_date secondary = as_base_date primary then [primary, secondary]
             else [primary])"

text \<open>The date and the time of the window a request asks for.\<close>

definition window_of :: "request \<Rightarrow> ustr \<times> ustr" where
  "window_of r = (r_base_date r, r_base_time r)"

text \<open>
  An upstream service that answers a request for the 13:00 window with one record and a
  request for any other window with two.
\<close>

definition one_then_two :: upstream where
  "one_then_two n params =
     (if r_base_time params = u ''1300'' then Returned (envelope ''00'' [obs ''T1H'' ''1''])
      else Returned (envelope ''00'' [obs ''T1H'' ''2'', obs ''REH'' ''50'']))"

text \<open>
  The named direction of index \<open>idx\<close> is the nearest one to a degree value \<open>m\<close> from 0 up
  to 360: \<open>m\<close> lies in the sector of 22.5 degrees centred on 22.5 times the index, or, for
  the index 0, in the half sector below 360.
\<close>

definition in_sector :: "rat \<Rightarrow> nat \<Rightarrow> bool" where
  "in_sector m idx \<longleftrightarrow>
     idx < 16 \<and>
     ((225 / 10 * of_nat idx - 1125 / 100 \<le> m \<and> m < 225 / 10 * of_nat idx + 1125 / 100) \<or>
      (idx = 0 \<and> 360 - 1125 / 100 \<le> m \<and> m < 360))"

section \<open>Properties of the string and dict operations\<close>

text \<open>
  The overflow test of \<open>binary64\<close> compares with the power 1024 of two. A rounded
  magnitude whose exponent is at most 900 is below it, so the evaluation of the function
  on such a number can leave the comparison out.
\<close>

lemma pow2_pos: "0 < pow2 e"
  by (simp add: pow2_def)

lemma pow2_le_848: "e \<le> 848 \<Longrightarrow> pow2 e \<le> 2 ^ 848"
proof (cases "0 \<le> e")
  case True
  assume "e \<le> 848"
  with True have "nat e \<le> 848" by simp
  then have "(2::rat) ^ nat e \<le> 2 ^ 848" by (intro power_increasing) simp_all
  with True show ?thesis by (simp add: pow2_def)
next
  case False
  have "1 / (2::rat) ^ nat (- e) \<le> 1" by simp
  also have "(1::rat) \<le> 2 ^ 848" by (rule one_le_power) simp
  finally show ?thesis using False by (simp add: pow2_def)
qed

lemma binary64_code [code]:
  "binary64 neg r =
     (if r = 0 then Finite neg 0
      else let e = max (ilog2 r) (- 1022);
               q = pow2 (e - 52);
               k = round_half_even (r / q);
               v = of_int k * q
           in if k \<le> 0x40000000000000 \<and> e \<le> 900 then Finite neg v
              else if 2 ^ 1024 \<le> v then Infinite neg else Finite neg v)"
proof -
  have small: "\<not> 2 ^ 1024 \<le> of_int k * pow2 (e - 52)"
    if k: "k \<le> 0x40000000000000" and e: "e \<le> 900" for k :: int and e :: int
  proof -
    have "(of_int k :: rat) \<le> of_int 0x40000000000000" using k by (simp only: of_int_le_iff)
    then have "(of_int k :: rat) \<le> 2 ^ 54" by simp
    moreover have "pow2 (e - 52) \<le> 2 ^ 848" using e by (intro pow2_le_848) simp
    moreover have "0 \<le> pow2 (e - 52)" using pow2_pos [of "e - 52"] by simp
    ultimately have "of_int k * pow2 (e - 52) \<le> 2 ^ 54 * 2 ^ 848"
      by (intro mult_mono) simp_all
    also have "(2::rat) ^ 54 * 2 ^ 848 = 2 ^ 902" by (simp only: power_add [symmetric]) simp
    also have "(2::rat) ^ 902 < 2 ^ 1024" by (intro power_strict_increasing) simp_all
    finally show ?thesis by simp
  qed
  show ?thesis
  proof (cases "r = 0")
    case True
    then show ?thesis by (simp add: binary64_def)
  next
    case False
    define e where "e = max (ilog2 r) (- 1022)"
    define k where "k = round_half_even (r / pow2 (e - 52))"
    show ?thesis
    proof (cases "k \<le> 0x40000000000000 \<and> e \<le> 900")
      case True
      then have n: "\<not> 2 ^ 1024 \<le> of_int k * pow2 (e - 52)" using small by blast
      show ?thesis
        unfolding binary64_def Let_def e_def [symmetric] k_def [symmetric]
        by (simp only: False True n if_False if_True simp_thms)
    next
      case c: False
      show ?thesis
        unfolding binary64_def Let_def e_def [symmetric] k_def [symmetric]
        by (simp only: False c if_False if_True simp_thms)
    qed
  qed
qed

lemma dropWhile_all: "(\<forall>x\<in>set (dropWhile P s). P x) \<longleftrightarrow> dropWhile P s = []"
proof
  assume a: "\<forall>x\<in>set (dropWhile P s). P x"
  show "dropWhile P s = []"
  proof (rule ccontr)
    assume n: "dropWhile P s \<noteq> []"
    then have "\<not> P (hd (dropWhile P s))" by (rule hd_dropWhile)
    moreover from n have "hd (dropWhile P s) \<in> set (dropWhile P s)" by simp
    ultimately show False using a by blast
  qed
next
  assume e: "dropWhile P s = []"
  show "\<forall>x\<in>set (dropWhile P s). P x" unfolding e by simp
qed

lemma strip_eq_Nil: "strip s = [] \<longleftrightarrow> list_all isspace s"
  by (simp add: strip_def list_all_iff dropWhile_eq_Nil_conv dropWhile_all)

lemma safe_cast_blank: "raw = JNull \<or> strip (py_str raw) = [] \<Longrightarrow> safe_cast k raw = Val JNull"
  by (auto simp add: safe_cast_def)

lemma known_group:
  "map_of CATEGORY_META code = Some m \<Longrightarrow> m_group m \<in> {K_gion, K_seupdo, K_gangsu, K_baram}"
  by (auto simp add: CATEGORY_META_def split: if_splits)

lemma describe_item_known:
  assumes "map_of CATEGORY_META (strip (py_str (dict_get kvs (u ''category'') (JStr [])))) = Some m"
  shows "\<exists>e. describe_item (JObj t kvs) = Inr (m_group m, m_ko m, e) \<and>
             e_code e = strip (py_str (dict_get kvs (u ''category'') (JStr []))) \<and>
             e_value e = safe_cast (m_cast m) (dict_get kvs (u ''obsrValue'') JNull) \<and>
             e_unit e = Some (m_unit m)"
  using assms by (simp add: describe_item_def Let_def split: option.splits)

lemma groups_distinct:
  "K_gion \<noteq> K_seupdo" "K_gion \<noteq> K_gangsu" "K_gion \<noteq> K_baram" "K_gion \<noteq> K_gita"
  "K_seupdo \<noteq> K_gangsu" "K_seupdo \<noteq> K_baram" "K_seupdo \<noteq> K_gita"
  "K_gangsu \<noteq> K_baram" "K_gangsu \<noteq> K_gita" "K_baram \<noteq> K_gita"
  by (simp_all add: K_gion_def K_seupdo_def K_gangsu_def K_baram_def K_gita_def)

lemma store_entry_empty:
  assumes "g \<in> {K_gion, K_seupdo, K_gangsu, K_baram, K_gita}"
  shows "\<exists>G. store_entry empty_groups g n e = Inr G \<and> map_of G g = Some [(n, e)]"
  using assms groups_distinct
  by (auto simp add: store_entry_def empty_groups_def dict_has_def)

lemma normalize_single:
  assumes "describe_item it = Inr (g, n, e)"
    and "g \<in> {K_gion, K_seupdo, K_gangsu, K_baram, K_gita}"
  shows "\<exists>G. normalize_observations [it] = Inr G \<and> map_of G g = Some [(n, e)]"
proof -
  from store_entry_empty [OF assms(2)]
  obtain G where "store_entry empty_groups g n e = Inr G" "map_of G g = Some [(n, e)]" by blast
  with assms(1) show ?thesis
    by (simp add: normalize_observations_def normalize_item_def)
qed

section \<open>Claims about safe_cast\<close>

text \<open>
  Claim C10. For either declared cast kind, \<open>safe_cast\<close> returns \<open>None\<close> when the raw value
  is \<open>None\<close> or when its string form is empty or consists of whitespace only; the value
  is not kept as the original string. So the entry built for an item with a known code
  whose observation value is missing or blank has \<open>None\<close> as its value field, and this is
  the entry found in the normalized output of that item.
\<close>

theorem safe_cast_missing_value:
  assumes "raw = JNull \<or> list_all isspace (py_str raw)"
    and "dict_get kvs (u ''obsrValue'') JNull = raw"
    and "map_of CATEGORY_META (strip (py_str (dict_get kvs (u ''category'') (JStr [])))) = Some m"
  shows "safe_cast k raw = Val JNull \<and> safe_cast k raw \<noteq> Val (JStr (py_str raw)) \<and>
         (\<exists>e G. describe_item (JObj t kvs) = Inr (m_group m, m_ko m, e) \<and>
                e_value e = Val JNull \<and>
                normalize_observations [JObj t kvs] = Inr G \<and>
                map_of G (m_group m) = Some [(m_ko m, e)])"
proof -
  from assms(1) have blank: "raw = JNull \<or> strip (py_str raw) = []"
    by (simp add: strip_eq_Nil)
  then have none: "safe_cast k' raw = Val JNull" for k'
    by (rule safe_cast_blank)
  from describe_item_known [OF assms(3), of t] assms(2) none
  obtain e where e: "describe_item (JObj t kvs) = Inr (m_group m, m_ko m, e)"
    and v: "e_value e = Val JNull"
    by auto
  from known_group [OF assms(3)]
  have "m_group m \<in> {K_gion, K_seupdo, K_gangsu, K_baram, K_gita}" by auto
  from normalize_single [OF e this] e v none show ?thesis by auto
qed

theorem safe_cast_missing_value_witness:
  "list_all isspace (py_str (JStr (u '' ''))) \<and>
   safe_cast CastFloat (JStr (u '' '')) = Val JNull \<and>
   (\<exists>e G. describe_item (JObj [] [(u ''category'', JStr (u ''T1H'')), (u ''obsrValue'', JStr (u '' ''))])
             = Inr (K_gion, K_gion, e) \<and> e_value e = Val JNull \<and>
           normalize_observations [JObj [] [(u ''category'', JStr (u ''T1H'')), (u ''obsrValue'', JStr (u '' ''))]]
             = Inr G \<and> map_of G K_gion = Some [(K_gion, e)])"
proof -
  let ?kvs = "[(u ''category'', JStr (u ''T1H'')), (u ''obsrValue'', JStr (u '' ''))]"
  let ?m = "\<lparr>m_ko = K_gion, m_unit = K_celsius, m_group = K_gion, m_cast = CastFloat\<rparr>"
  have h0: "list_all isspace (py_str (JStr (u '' '')))"
    by code_simp
  have h2: "dict_get ?kvs (u ''obsrValue'') JNull = JStr (u '' '')"
    by code_simp
  have h3: "map_of CATEGORY_META (strip (py_str (dict_get ?kvs (u ''category'') (JStr [])))) = Some ?m"
    by code_simp
  from h0 have h1: "JStr (u '' '') = JNull \<or> list_all isspace (py_str (JStr (u '' '')))" ..
  from safe_cast_missing_value [OF h1 h2 h3, of CastFloat "[]"] h0 show ?thesis
    by simp
qed

lemma safe_cast_failure:
  "raw \<noteq> JNull \<Longrightarrow> strip (py_str raw) \<noteq> [] \<Longrightarrow> py_float (strip (py_str raw)) = None
     \<Longrightarrow> safe_cast k raw = Val raw"
  by (cases k) (simp_all add: safe_cast_def)

lemma safe_cast_int_truncates:
  "raw \<noteq> JNull \<Longrightarrow> strip (py_str raw) \<noteq> [] \<Longrightarrow> py_float (strip (py_str raw)) = Some x
     \<Longrightarrow> py_int x = Some n \<Longrightarrow> safe_cast CastInt raw = Val (JInt n)"
  by (simp add: safe_cast_def)

lemma safe_cast_examples:
  "safe_cast CastInt (JStr (u ''3.0'')) = Val (JInt 3)"
  "non_numeric (u ''abc'')"
  "safe_cast CastFloat (JStr (u ''abc'')) = Val (JStr (u ''abc''))"
  "safe_cast CastFloat (JStr [0xFF11, 0xFF12]) = Float (Finite False 12)"
  by code_simp+

lemma safe_cast_float_parses:
  "raw \<noteq> JNull \<Longrightarrow> strip (py_str raw) \<noteq> [] \<Longrightarrow> py_float (strip (py_str raw)) = Some x
     \<Longrightarrow> safe_cast CastFloat raw = Float x"
  by (simp add: safe_cast_def)

text \<open>
  Claim C6, as stated: casting \<open>"3.0"\<close> with the integer kind gives 3, and every
  non-numeric string is returned unchanged under either kind. The second part fails at
  the empty string (and at every whitespace-only string): it is non-numeric, and
  \<open>safe_cast\<close> returns \<open>None\<close> for it before any conversion is tried.
\<close>

theorem safe_cast_blank_string_counterexample:
  "non_numeric [] \<and> safe_cast CastInt (JStr []) = Val JNull \<and> safe_cast CastInt (JStr []) \<noteq> Val (JStr [])
   \<and> safe_cast CastFloat (JStr []) \<noteq> Val (JStr [])"
  by code_simp

text \<open>
  Claim C6, amended: casting \<open>"3.0"\<close> with the integer kind gives the integer 3; the
  integer kind parses the text as a float and truncates it, and the float kind gives the
  float parsed (also from the decimal digits of another script, as the full-width 12);
  every non-numeric string that is not empty or whitespace-only, as \<open>"abc"\<close>, is returned
  unchanged under either kind; and an empty or whitespace-only string gives \<open>None\<close>.
\<close>

theorem safe_cast_round_trip:
  "safe_cast CastInt (JStr (u ''3.0'')) = Val (JInt 3) \<and>
   non_numeric (u ''abc'') \<and>
   safe_cast CastFloat (JStr (u ''abc'')) = Val (JStr (u ''abc'')) \<and>
   safe_cast CastFloat (JStr [0xFF11, 0xFF12]) = Float (Finite False 12) \<and>
   (\<not> list_all isspace s \<and> py_float (strip s) = Some x \<and> py_int x = Some n
      \<longrightarrow> safe_cast CastInt (JStr s) = Val (JInt n)) \<and>
   (\<not> list_all isspace s \<and> py_float (strip s) = Some x
      \<longrightarrow> safe_cast CastFloat (JStr s) = Float x) \<and>
   (\<not> list_all isspace s \<and> non_numeric s \<longrightarrow> safe_cast k (JStr s) = Val (JStr s)) \<and>
   (list_all isspace s \<longrightarrow> safe_cast k (JStr s) = Val JNull)"
proof -
  have A: "\<not> list_all isspace s \<and> py_float (strip s) = Some x \<and> py_int x = Some n
      \<longrightarrow> safe_cast CastInt (JStr s) = Val (JInt n)"
    using safe_cast_int_truncates [of "JStr s" x n] by (simp add: strip_eq_Nil)
  have B: "\<not> list_all isspace s \<and> py_float (strip s) = Some x
      \<longrightarrow> safe_cast CastFloat (JStr s) = Float x"
    using safe_cast_float_parses [of "JStr s" x] by (simp add: strip_eq_Nil)
  have C: "\<not> list_all isspace s \<and> non_numeric s \<longrightarrow> safe_cast k (JStr s) = Val (JStr s)"
    using safe_cast_failure [of "JStr s" k] by (simp add: non_numeric_def strip_eq_Nil)
  have D: "list_all isspace s \<longrightarrow> safe_cast k (JStr s) = Val JNull"
    using safe_cast_blank [of "JStr s" k] by (simp add: strip_eq_Nil)
  from safe_cast_examples A B C D show ?thesis by (intro conjI)
qed

theorem safe_cast_round_trip_witness:
  "\<not> list_all isspace (u ''abc'') \<and> non_numeric (u ''abc'') \<and>
   safe_cast CastFloat (JStr (u ''abc'')) = Val (JStr (u ''abc'')) \<and>
   safe_cast CastInt (JStr (u ''abc'')) = Val (JStr (u ''abc'')) \<and>
   \<not> list_all isspace (u ''-3.5'') \<and> py_float (strip (u ''-3.5'')) = Some (Finite True (7 / 2)) \<and>
   py_int (Finite True (7 / 2)) = Some (- 3) \<and>
   safe_cast CastInt (JStr (u ''-3.5'')) = Val (JInt (- 3)) \<and>
   safe_cast CastFloat (JStr (u ''-3.5'')) = Float (Finite True (7 / 2)) \<and>
   \<not> list_all isspace [0xFF11, 0xFF12] \<and>
   py_float (strip [0xFF11, 0xFF12]) = Some (Finite False 12) \<and>
   py_int (Finite False 12) = Some 12 \<and>
   safe_cast CastInt (JStr [0xFF11, 0xFF12]) = Val (JInt 12) \<and>
   list_all isspace (u ''  '') \<and>
   safe_cast CastInt (JStr (u ''  '')) = Val JNull \<and>
   safe_cast CastFloat (JStr (u ''  '')) = Val JNull"
proof -
  have a: "\<not> list_all isspace (u ''abc'')" by code_simp
  have b: "non_numeric (u ''abc'')" by code_simp
  have c: "\<not> list_all isspace (u ''-3.5'')" by code_simp
  have d: "py_float (strip (u ''-3.5'')) = Some (Finite True (7 / 2))" by code_simp
  have e: "py_int (Finite True (7 / 2)) = Some (- 3)" by code_simp
  have f: "\<not> list_all isspace [0xFF11, 0xFF12]" by code_simp
  have g: "py_float (strip [0xFF11, 0xFF12]) = Some (Finite False 12)" by code_simp
  have h: "py_int (Finite False 12) = Some 12" by code_simp
  have i: "list_all isspace (u ''  '')" by code_simp
  from safe_cast_round_trip [of "u ''abc''" "Finite True (7 / 2)" "- 3" CastFloat] a b
  have 1: "safe_cast CastFloat (JStr (u ''abc'')) = Val (JStr (u ''abc''))" by blast
  from safe_cast_round_trip [of "u ''abc''" "Finite True (7 / 2)" "- 3" CastInt] a b
  have 2: "safe_cast CastInt (JStr (u ''abc'')) = Val (JStr (u ''abc''))" by blast
  from safe_cast_round_trip [of "u ''-3.5''" "Finite True (7 / 2)" "- 3" CastFloat] c d e
  have 3: "safe_cast CastInt (JStr (u ''-3.5'')) = Val (JInt (- 3))"
    and 4: "safe_cast CastFloat (JStr (u ''-3.5'')) = Float (Finite True (7 / 2))" by blast+
  from safe_cast_round_trip [of "[0xFF11, 0xFF12]" "Finite False 12" 12 CastFloat] f g h
  have 5: "safe_cast CastInt (JStr [0xFF11, 0xFF12]) = Val (JInt 12)" by blast
  from safe_cast_round_trip [of "u ''  ''" "Finite False 12" 12 CastInt] i
  have 6: "safe_cast CastInt (JStr (u ''  '')) = Val JNull" by blast
  from safe_cast_round_trip [of "u ''  ''" "Finite False 12" 12 CastFloat] i
  have 7: "safe_cast CastFloat (JStr (u ''  '')) = Val JNull" by blast
  from a b 1 2 c d e 3 4 f g h 5 i 6 7 show ?thesis by blast
qed

section \<open>Claim about the wind direction\<close>

lemma wind_deg_shift: "wind_deg_to_16dir_ko (Some (d + 360 * k)) = wind_deg_to_16dir_ko (Some d)"
  by (simp add: wind_deg_to_16dir_ko_def)

lemma wind_examples:
  "wind_deg_to_16dir_ko (Some 0) = Some K_buk" "wind_deg_to_16dir_ko (Some 360) = Some K_buk"
  "wind_deg_to_16dir_ko (Some 90) = Some K_dong"
  "wind_deg_to_16dir_ko_float (Finite False (34875 / 100)) = Some K_buk"
  "wind_deg_to_16dir_ko None = None"
  by code_simp+

lemma wind_deg_sector:
  "\<exists>idx. wind_deg_to_16dir_ko (Some d) = Some (WIND_DIR_16_KO ! idx) \<and>
         in_sector (of_int (d mod 360)) idx"
proof -
  define m :: rat where "m = of_int (d mod 360)"
  have m0: "0 \<le> m" and m1: "m < 360"
    by (simp_all add: m_def)
  define j where "j = \<lfloor>(m + 1125 / 100) / (225 / 10)\<rfloor>"
  have j0: "0 \<le> j" unfolding j_def using m0 by simp
  have j16: "j \<le> 16" unfolding j_def using m1 by (simp add: floor_le_iff)
  have lo: "of_int j * (225 / 10) \<le> m + 1125 / 100"
    unfolding j_def using floor_divide_lower [of "225 / 10" "m + 1125 / 100"] by simp
  have hi: "m + 1125 / 100 < (of_int j + 1) * (225 / 10)"
    unfolding j_def using floor_divide_upper [of "225 / 10" "m + 1125 / 100"] by simp
  have w: "wind_deg_to_16dir_ko (Some d) = Some (WIND_DIR_16_KO ! nat (j mod 16))"
    by (simp add: wind_deg_to_16dir_ko_def j_def m_def)
  have "in_sector m (nat (j mod 16))"
  proof (cases "j = 16")
    case True
    moreover from lo True have "360 - 1125 / 100 \<le> m" by simp
    ultimately show ?thesis using m1 by (simp add: in_sector_def)
  next
    case False
    with j0 j16 have jm: "j mod 16 = j" by simp
    have "of_nat (nat j) = (of_int j :: rat)" using j0 by simp
    moreover have "nat j < 16" using j0 j16 False by simp
    ultimately show ?thesis using lo hi by (simp add: in_sector_def jm algebra_simps)
  qed
  with w show ?thesis unfolding m_def by blast
qed

text \<open>
  Claim C5, as stated: every degree value, with or without a fraction, gets the label of
  the named direction nearest to it. On a float the sum with 11.25 is rounded: the float
  next below 11.25 (11.25 less the power -49 of two) lies in the sector of buk, index 0,
  but the sum rounds to 22.5 and the index is 1, the label bukbukdong.
\<close>

theorem wind_direction_float_counterexample:
  "round64 (1125 / 100 - 1 / 2 ^ 49) = Finite False (1125 / 100 - 1 / 2 ^ 49) \<and>
   wind_idx_float (Finite False (1125 / 100 - 1 / 2 ^ 49)) = Some 1 \<and>
   wind_deg_to_16dir_ko_float (Finite False (1125 / 100 - 1 / 2 ^ 49)) = Some (WIND_DIR_16_KO ! 1) \<and>
   in_sector (1125 / 100 - 1 / 2 ^ 49) 0 \<and> \<not> in_sector (1125 / 100 - 1 / 2 ^ 49) 1 \<and>
   WIND_DIR_16_KO ! 1 \<noteq> WIND_DIR_16_KO ! 0"
  by code_simp

text \<open>
  Claim C5, amended. The wind-direction mapping sends 0 and 360 degrees, and the float
  348.75, to buk (north) and 90 degrees to dong (east). For every integer degree value
  (the declared type of the argument, and what \<open>normalize_observations\<close> passes) the value
  and the value shifted by any whole number of turns get the same label, and the label
  is that of the nearest named direction: the value wrapped into 0 to 360 lies in the
  sector of 22.5 degrees centred on the direction, or in the half sector below 360 for
  buk.
\<close>

theorem wind_direction_mapping:
  "wind_deg_to_16dir_ko (Some 0) = Some K_buk \<and>
   wind_deg_to_16dir_ko (Some 360) = Some K_buk \<and>
   wind_deg_to_16dir_ko_float (Finite False (34875 / 100)) = Some K_buk \<and>
   wind_deg_to_16dir_ko (Some 90) = Some K_dong \<and>
   wind_deg_to_16dir_ko (Some (d + 360 * k)) = wind_deg_to_16dir_ko (Some d) \<and>
   (\<exists>idx. wind_deg_to_16dir_ko (Some d) = Some (WIND_DIR_16_KO ! idx) \<and>
          in_sector (of_int (d mod 360)) idx)"
  using wind_examples(1-4) wind_deg_shift [of d k] wind_deg_sector [of d]
  by blast

section \<open>Claims about normalize_observations\<close>

lemma pty_meta:
  "map_of CATEGORY_META (u ''PTY'') =
     Some \<lparr>m_ko = K_gangsuhyeongtae, m_unit = K_kodeu, m_group = K_gangsu, m_cast = CastInt\<rparr>"
  by code_simp

lemma pty_not_vec: "u ''PTY'' \<noteq> u ''VEC''"
  by code_simp

lemma describe_item_pty:
  assumes "strip (py_str (dict_get kvs (u ''category'') (JStr []))) = u ''PTY''"
    and "safe_cast CastInt (dict_get kvs (u ''obsrValue'') JNull) = Val (JInt v)"
  shows "describe_item (JObj t kvs) =
           Inr (K_gangsu, K_gangsuhyeongtae,
                \<lparr>e_code = u ''PTY'', e_value = Val (JInt v), e_unit = Some K_kodeu,
                 e_description = Some (case map_of PTY_MAP_ULTRA v of Some d \<Rightarrow> d
                    | None \<Rightarrow> K_al_su_eopseum @ u ''('' @ str_int v @ u '')''),
                 e_dir16 = None\<rparr>)"
  using assms pty_meta pty_not_vec
  by (simp add: describe_item_def Let_def int_or_cast_def)

lemma pty_known_codes: "map_of PTY_MAP_ULTRA v \<noteq> None \<longleftrightarrow> 0 \<le> v \<and> v \<le> 7"
  by (auto simp add: PTY_MAP_ULTRA_def)

lemma pty_examples:
  "map_of PTY_MAP_ULTRA 0 = Some K_eopseum" "map_of PTY_MAP_ULTRA 9 = None"
  "str_int 9 = u ''9''"
  by code_simp+

text \<open>
  Claim C8. For an observation whose category is \<open>PTY\<close> and whose value casts to an
  integer \<open>v\<close>, the entry carries the description of the precipitation table for \<open>v\<close>
  when \<open>v\<close> is a code of the table (0 to 7; in particular eopseum for 0), and the text
  al su eopseum followed by \<open>v\<close> in parentheses otherwise (in particular for 9). The
  entry is the one stored for the item under gangsu-hyeongtae in the group gangsu.
\<close>

theorem pty_description_attached:
  assumes "strip (py_str (dict_get kvs (u ''category'') (JStr []))) = u ''PTY''"
    and "safe_cast CastInt (dict_get kvs (u ''obsrValue'') JNull) = Val (JInt v)"
  shows "\<exists>e G. describe_item (JObj t kvs) = Inr (K_gangsu, K_gangsuhyeongtae, e) \<and>
           normalize_observations [JObj t kvs] = Inr G \<and>
           map_of G K_gangsu = Some [(K_gangsuhyeongtae, e)] \<and>
           e_value e = Val (JInt v) \<and>
           e_description e = Some (case map_of PTY_MAP_ULTRA v of Some d \<Rightarrow> d
              | None \<Rightarrow> K_al_su_eopseum @ u ''('' @ str_int v @ u '')'') \<and>
           (map_of PTY_MAP_ULTRA v \<noteq> None \<longleftrightarrow> 0 \<le> v \<and> v \<le> 7) \<and>
           (v = 0 \<longrightarrow> e_description e = Some K_eopseum) \<and>
           (v = 9 \<longrightarrow> e_description e = Some (K_al_su_eopseum @ u ''(9)''))"
proof -
  let ?e = "\<lparr>e_code = u ''PTY'', e_value = Val (JInt v), e_unit = Some K_kodeu,
             e_description = Some (case map_of PTY_MAP_ULTRA v of Some d \<Rightarrow> d
                | None \<Rightarrow> K_al_su_eopseum @ u ''('' @ str_int v @ u '')''),
             e_dir16 = None\<rparr>"
  have d: "describe_item (JObj t kvs) = Inr (K_gangsu, K_gangsuhyeongtae, ?e)"
    using assms by (rule describe_item_pty)
  have "K_gangsu \<in> {K_gion, K_seupdo, K_gangsu, K_baram, K_gita}" by simp
  from normalize_single [OF d this]
  obtain G where G: "normalize_observations [JObj t kvs] = Inr G"
    "map_of G K_gangsu = Some [(K_gangsuhyeongtae, ?e)]" by blast
  have 0: "v = 0 \<longrightarrow> e_description ?e = Some K_eopseum"
    using pty_examples(1) by simp
  have 9: "v = 9 \<longrightarrow> e_description ?e = Some (K_al_su_eopseum @ u ''(9)'')"
    using pty_examples(2,3) by (auto simp add: u_def)
  show ?thesis
    using d G 0 9 pty_known_codes [of v] by (intro exI [of _ ?e] exI [of _ G]) simp
qed

theorem pty_description_attached_witness:
  "strip (py_str (dict_get [(u ''category'', JStr (u ''PTY'')), (u ''obsrValue'', JStr (u ''9''))]
      (u ''category'') (JStr []))) = u ''PTY'' \<and>
   safe_cast CastInt (dict_get [(u ''category'', JStr (u ''PTY'')), (u ''obsrValue'', JStr (u ''9''))]
      (u ''obsrValue'') JNull) = Val (JInt 9) \<and>
   (\<exists>e G. describe_item (JObj [] [(u ''category'', JStr (u ''PTY'')), (u ''obsrValue'', JStr (u ''9''))])
             = Inr (K_gangsu, K_gangsuhyeongtae, e) \<and>
           normalize_observations
             [JObj [] [(u ''category'', JStr (u ''PTY'')), (u ''obsrValue'', JStr (u ''9''))]] = Inr G \<and>
           map_of G K_gangsu = Some [(K_gangsuhyeongtae, e)] \<and>
           e_description e = Some (K_al_su_eopseum @ u ''(9)'')) \<and>
   strip (py_str (dict_get [(u ''category'', JStr (u ''PTY'')), (u ''obsrValue'', JStr [0xFF11])]
      (u ''category'') (JStr []))) = u ''PTY'' \<and>
   safe_cast CastInt (dict_get [(u ''category'', JStr (u ''PTY'')), (u ''obsrValue'', JStr [0xFF11])]
      (u ''obsrValue'') JNull) = Val (JInt 1) \<and>
   (\<exists>e G. describe_item (JObj [] [(u ''category'', JStr (u ''PTY'')), (u ''obsrValue'', JStr [0xFF11])])
             = Inr (K_gangsu, K_gangsuhyeongtae, e) \<and>
           normalize_observations
             [JObj [] [(u ''category'', JStr (u ''PTY'')), (u ''obsrValue'', JStr [0xFF11])]] = Inr G \<and>
           map_of G K_gangsu = Some [(K_gangsuhyeongtae, e)] \<and>
           e_value e = Val (JInt 1) \<and>
           e_description e = Some [0xBE44])"
proof -
  let ?kvs = "[(u ''category'', JStr (u ''PTY'')), (u ''obsrValue'', JStr (u ''9''))]"
  let ?kvs1 = "[(u ''category'', JStr (u ''PTY'')), (u ''obsrValue'', JStr [0xFF11])]"
  have h1: "strip (py_str (dict_get ?kvs (u ''category'') (JStr []))) = u ''PTY''"
    by code_simp
  have h2: "safe_cast CastInt (dict_get ?kvs (u ''obsrValue'') JNull) = Val (JInt 9)"
    by code_simp
  have h3: "strip (py_str (dict_get ?kvs1 (u ''category'') (JStr []))) = u ''PTY''"
    by code_simp
  have h4: "safe_cast CastInt (dict_get ?kvs1 (u ''obsrValue'') JNull) = Val (JInt 1)"
    by code_simp
  have m1: "map_of PTY_MAP_ULTRA 1 = Some [0xBE44]"
    by code_simp
  from pty_description_attached [OF h1 h2, of "[]"]
  have 1: "\<exists>e G. describe_item (JObj [] ?kvs) = Inr (K_gangsu, K_gangsuhyeongtae, e) \<and>
           normalize_observations [JObj [] ?kvs] = Inr G \<and>
           map_of G K_gangsu = Some [(K_gangsuhyeongtae, e)] \<and>
           e_description e = Some (K_al_su_eopseum @ u ''(9)'')"
    by auto
  from pty_description_attached [OF h3 h4, of "[]"] m1
  have 2: "\<exists>e G. describe_item (JObj [] ?kvs1) = Inr (K_gangsu, K_gangsuhyeongtae, e) \<and>
           normalize_observations [JObj [] ?kvs1] = Inr G \<and>
           map_of G K_gangsu = Some [(K_gangsuhyeongtae, e)] \<and>
           e_value e = Val (JInt 1) \<and>
           e_description e = Some [0xBE44]"
    by auto
  from h1 h2 1 h3 h4 2 show ?thesis by (intro conjI)
qed

text \<open>
  Claim C4 says that no item is dropped when display labels collide. With three items of
  the category \<open>T1H\<close> (values 1, 2, 3) the first is stored under gion, the second under
  gion(T1H), and the third, whose label is a key again, is stored under gion(T1H) too
  and replaces the second: the output has two entries, and the entry of the second item
  is not among them.
\<close>

theorem normalize_observations_third_duplicate:
  "describe_item (obs ''T1H'' ''2'') = Inr (K_gion, K_gion, T1H_entry 2) \<and>
   normalize_observations three_T1H =
     Inr [(K_gion, [(K_gion, T1H_entry 1), (K_gion @ u ''(T1H)'', T1H_entry 3)]),
          (K_seupdo, []), (K_gangsu, []), (K_baram, []), (K_gita, [])]"
  by code_simp

section \<open>Claim about normalize_city\<close>

lemma strip_Nil: "strip [] = []"
  by (simp add: strip_def)

lemma foldl_no_match:
  "\<forall>p\<in>set ps. \<not> endswith s p \<Longrightarrow> foldl strip_suffix s ps = s"
  by (induction ps) (simp_all add: strip_suffix_def)

lemma find_first_match:
  "\<forall>p\<in>set pre. \<not> P p \<Longrightarrow> P x \<Longrightarrow> List.find P (pre @ x # post) = Some x"
  by (induction pre) simp_all

lemma suffixes_nonempty: "[] \<notin> set city_suffixes"
  by (simp add: city_suffixes_def K_teukbyeoljachisi_def K_teukbyeolsi_def K_gwangyeoksi_def K_si_def)

lemma endswith_Nil: "endswith [] suffix \<longleftrightarrow> suffix = []"
  by (auto simp add: endswith_def)

lemma strip_idem: "strip (strip s) = strip s"
proof -
  define t where "t = dropWhile isspace s"
  define w where "w = dropWhile isspace (rev t)"
  have sw: "strip s = rev w" by (simp add: strip_def t_def w_def)
  have "rev t = takeWhile isspace (rev t) @ w" by (simp add: w_def)
  then have "rev (rev t) = rev (takeWhile isspace (rev t) @ w)" by (rule arg_cong)
  then have tw: "t = rev w @ rev (takeWhile isspace (rev t))"
    by (simp only: rev_rev_ident rev_append)
  have front: "dropWhile isspace (rev w) = rev w"
  proof (cases "rev w = []")
    case True
    then show ?thesis by simp
  next
    case False
    then have "hd (rev w) = hd t" using tw by (metis hd_append2)
    moreover have "t \<noteq> []" using False tw by auto
    then have "\<not> isspace (hd t)" unfolding t_def by (rule hd_dropWhile)
    ultimately show ?thesis by (simp add: dropWhile_eq_self_iff)
  qed
  have rear: "dropWhile isspace w = w" by (simp add: w_def)
  show ?thesis unfolding sw
    by (simp add: strip_def front rear)
qed

lemma normalize_city_unmatched:
  assumes "\<forall>suffix\<in>set city_suffixes. \<not> endswith (strip city) suffix"
  shows "normalize_city city = strip city" "spec_normalize_city city = strip city"
proof -
  show "normalize_city city = strip city"
    using foldl_no_match [OF assms] by (simp add: normalize_city_def strip_idem strip_Nil)
  from assms have "List.find (endswith (strip city)) city_suffixes = None"
    by (simp add: find_None_iff)
  then show "spec_normalize_city city = strip city"
    by (simp add: spec_normalize_city_def)
qed

lemma normalize_city_one_suffix:
  assumes split: "city_suffixes = pre @ suffix # post"
    and pre: "\<forall>p\<in>set pre. \<not> endswith (strip city) p"
    and match: "endswith (strip city) suffix"
    and post: "\<forall>q\<in>set post. \<not> endswith (drop_last (length suffix) (strip city)) q"
  shows "normalize_city city = strip (drop_last (length suffix) (strip city))"
    and "spec_normalize_city city = strip (drop_last (length suffix) (strip city))"
proof -
  have "suffix \<in> set city_suffixes" unfolding split by simp
  then have "suffix \<noteq> []" using suffixes_nonempty by auto
  with match have "strip city \<noteq> []" by (auto simp add: endswith_Nil)
  then have ne: "city \<noteq> []" by (auto simp add: strip_def)
  have "foldl strip_suffix (strip city) city_suffixes =
        foldl strip_suffix (strip_suffix (foldl strip_suffix (strip city) pre) suffix) post"
    by (simp add: split)
  also have "\<dots> = foldl strip_suffix (drop_last (length suffix) (strip city)) post"
    using foldl_no_match [OF pre] match by (simp add: strip_suffix_def)
  also have "\<dots> = drop_last (length suffix) (strip city)"
    using foldl_no_match [OF post] .
  finally show "normalize_city city = strip (drop_last (length suffix) (strip city))"
    using ne by (simp add: normalize_city_def)
  from find_first_match [of pre "endswith (strip city)" suffix post] pre match
  have "List.find (endswith (strip city)) city_suffixes = Some suffix"
    by (simp add: split)
  then show "spec_normalize_city city = strip (drop_last (length suffix) (strip city))"
    by (simp add: spec_normalize_city_def)
qed

lemma normalize_city_examples:
  "normalize_city (K_seoul @ K_teukbyeolsi) = K_seoul"
  "normalize_city (K_seoul @ K_si) = K_seoul"
  "normalize_city K_seoul = K_seoul"
  "normalize_city (K_sejong @ K_teukbyeoljachisi) = K_sejong"
  "normalize_city [] = []"
  "map length city_suffixes = [5, 3, 3, 1]"
  "normalize_city (u '' Tokyo '') = u ''Tokyo''"
  "map_of CITY_TO_GRID (u ''Tokyo'') = None"
  "normalize_city (K_busan @ K_si @ K_gwangyeoksi) = K_busan"
  by code_simp+

lemma normalize_city_first_match:
  assumes split: "city_suffixes = pre @ a # post"
    and pre: "\<forall>p\<in>set pre. \<not> endswith (strip city) p"
    and match: "endswith (strip city) a"
  shows "normalize_city city = strip (foldl strip_suffix (drop_last (length a) (strip city)) post)"
    and "spec_normalize_city city = strip (drop_last (length a) (strip city))"
proof -
  have "a \<in> set city_suffixes" unfolding split by simp
  then have "a \<noteq> []" using suffixes_nonempty by auto
  with match have "strip city \<noteq> []" by (auto simp add: endswith_Nil)
  then have ne: "city \<noteq> []" by (auto simp add: strip_def)
  have "foldl strip_suffix (strip city) city_suffixes =
        foldl strip_suffix (strip_suffix (foldl strip_suffix (strip city) pre) a) post"
    by (simp add: split)
  also have "\<dots> = foldl strip_suffix (drop_last (length a) (strip city)) post"
    using foldl_no_match [OF pre] match by (simp add: strip_suffix_def)
  finally show "normalize_city city =
      strip (foldl strip_suffix (drop_last (length a) (strip city)) post)"
    using ne by (simp add: normalize_city_def)
  from find_first_match [of pre "endswith (strip city)" a post] pre match
  have "List.find (endswith (strip city)) city_suffixes = Some a"
    by (simp add: split)
  then show "spec_normalize_city city = strip (drop_last (length a) (strip city))"
    by (simp add: spec_normalize_city_def)
qed

lemma normalize_city_two_suffixes:
  assumes split: "city_suffixes = pre @ a # mid @ b # post"
    and pre: "\<forall>p\<in>set pre. \<not> endswith (strip city) p"
    and match: "endswith (strip city) a"
    and mid: "\<forall>p\<in>set mid. \<not> endswith (drop_last (length a) (strip city)) p"
    and second: "endswith (drop_last (length a) (strip city)) b"
    and post: "\<forall>q\<in>set post.
                 \<not> endswith (drop_last (length b) (drop_last (length a) (strip city))) q"
  shows "normalize_city city =
           strip (drop_last (length b) (drop_last (length a) (strip city)))"
    and "spec_normalize_city city = strip (drop_last (length a) (strip city))"
proof -
  have s: "city_suffixes = pre @ a # (mid @ b # post)" using split by simp
  have "foldl strip_suffix (drop_last (length a) (strip city)) (mid @ b # post) =
        foldl strip_suffix
          (strip_suffix (foldl strip_suffix (drop_last (length a) (strip city)) mid) b) post"
    by simp
  also have "\<dots> = foldl strip_suffix
      (drop_last (length b) (drop_last (length a) (strip city))) post"
    using foldl_no_match [OF mid] second by (simp add: strip_suffix_def)
  also have "\<dots> = drop_last (length b) (drop_last (length a) (strip city))"
    using foldl_no_match [OF post] .
  finally show "normalize_city city =
           strip (drop_last (length b) (drop_last (length a) (strip city)))"
    using normalize_city_first_match(1) [OF s pre match] by simp
  show "spec_normalize_city city = strip (drop_last (length a) (strip city))"
    using normalize_city_first_match(2) [OF s pre match] .
qed

text \<open>
  Claim C7, as stated: \<open>normalize_city\<close> strips the longest matching suffix, that is, it
  is the function \<open>spec_normalize_city\<close>. The loop has no \<open>break\<close>: on busan followed by
  si and gwangyeok-si it strips gwangyeok-si, the longest matching suffix, and then si
  as well, where stripping the longest matching suffix alone leaves busan-si.
\<close>

theorem normalize_city_two_suffixes_counterexample:
  "normalize_city (K_busan @ K_si @ K_gwangyeoksi) = K_busan \<and>
   spec_normalize_city (K_busan @ K_si @ K_gwangyeoksi) = K_busan @ K_si \<and>
   K_busan \<noteq> K_busan @ K_si"
  by code_simp

text \<open>
  Claim C7, amended. \<open>normalize_city\<close> is a total function. It tries the suffixes in the
  fixed order teukbyeol-jachi-si, teukbyeol-si, gwangyeok-si, si (lengths 5, 3, 3, 1:
  longest first) and strips each one that the string ends with when its turn comes.
  seoul-teukbyeol-si, seoul-si and seoul give seoul, sejong-teukbyeol-jachi-si gives
  sejong, and busan-si-gwangyeok-si gives busan. The empty input and an input that no
  suffix matches are returned trimmed and otherwise unchanged. When the first matching
  suffix (the longest matching one) is stripped, the later suffixes of the order are
  tried in turn on what remains, and the result is trimmed. When what remains ends with
  none of them, the result is the trimmed input without that one suffix, as the
  specification describes; when it ends with a later suffix, that suffix is stripped as
  well, where the specification strips the first one alone. There is no membership
  check: a name that is not a supported region is returned.
\<close>

theorem normalize_city_suffix_order:
  "normalize_city (K_seoul @ K_teukbyeolsi) = K_seoul \<and>
   normalize_city (K_seoul @ K_si) = K_seoul \<and>
   normalize_city K_seoul = K_seoul \<and>
   normalize_city (K_sejong @ K_teukbyeoljachisi) = K_sejong \<and>
   normalize_city [] = [] \<and>
   map length city_suffixes = [5, 3, 3, 1] \<and>
   normalize_city (u '' Tokyo '') = u ''Tokyo'' \<and> map_of CITY_TO_GRID (u ''Tokyo'') = None \<and>
   normalize_city (K_busan @ K_si @ K_gwangyeoksi) = K_busan \<and>
   ((\<forall>suffix\<in>set city_suffixes. \<not> endswith (strip city) suffix) \<longrightarrow>
      normalize_city city = strip city \<and> spec_normalize_city city = strip city) \<and>
   (city_suffixes = pre @ suffix # post \<and>
    (\<forall>p\<in>set pre. \<not> endswith (strip city) p) \<and> endswith (strip city) suffix \<longrightarrow>
      normalize_city city =
        strip (foldl strip_suffix (drop_last (length suffix) (strip city)) post)) \<and>
   (city_suffixes = pre @ suffix # post \<and>
    (\<forall>p\<in>set pre. \<not> endswith (strip city) p) \<and> endswith (strip city) suffix \<and>
    (\<forall>q\<in>set post. \<not> endswith (drop_last (length suffix) (strip city)) q) \<longrightarrow>
      normalize_city city = strip (drop_last (length suffix) (strip city)) \<and>
      normalize_city city = spec_normalize_city city) \<and>
   (city_suffixes = pre @ suffix # mid @ later # rest \<and>
    (\<forall>p\<in>set pre. \<not> endswith (strip city) p) \<and> endswith (strip city) suffix \<and>
    (\<forall>p\<in>set mid. \<not> endswith (drop_last (length suffix) (strip city)) p) \<and>
    endswith (drop_last (length suffix) (strip city)) later \<and>
    (\<forall>q\<in>set rest.
       \<not> endswith (drop_last (length later) (drop_last (length suffix) (strip city))) q) \<longrightarrow>
      normalize_city city =
        strip (drop_last (length later) (drop_last (length suffix) (strip city))) \<and>
      spec_normalize_city city = strip (drop_last (length suffix) (strip city)))"
proof -
  have A: "(\<forall>suffix\<in>set city_suffixes. \<not> endswith (strip city) suffix) \<longrightarrow>
      normalize_city city = strip city \<and> spec_normalize_city city = strip city"
    using normalize_city_unmatched [of city] by blast
  have B: "city_suffixes = pre @ suffix # post \<and>
    (\<forall>p\<in>set pre. \<not> endswith (strip city) p) \<and> endswith (strip city) suffix \<longrightarrow>
      normalize_city city =
        strip (foldl strip_suffix (drop_last (length suffix) (strip city)) post)"
    using normalize_city_first_match(1) [of pre suffix post city] by blast
  have C: "city_suffixes = pre @ suffix # post \<and>
    (\<forall>p\<in>set pre. \<not> endswith (strip city) p) \<and> endswith (strip city) suffix \<and>
    (\<forall>q\<in>set post. \<not> endswith (drop_last (length suffix) (strip city)) q) \<longrightarrow>
      normalize_city city = strip (drop_last (length suffix) (strip city)) \<and>
      normalize_city city = spec_normalize_city city"
    using normalize_city_one_suffix [of pre suffix post city] by simp
  have D: "city_suffixes = pre @ suffix # mid @ later # rest \<and>
    (\<forall>p\<in>set pre. \<not> endswith (strip city) p) \<and> endswith (strip city) suffix \<and>
    (\<forall>p\<in>set mid. \<not> endswith (drop_last (length suffix) (strip city)) p) \<and>
    endswith (drop_last (length suffix) (strip city)) later \<and>
    (\<forall>q\<in>set rest.
       \<not> endswith (drop_last (length later) (drop_last (length suffix) (strip city))) q) \<longrightarrow>
      normalize_city city =
        strip (drop_last (length later) (drop_last (length suffix) (strip city))) \<and>
      spec_normalize_city city = strip (drop_last (length suffix) (strip city))"
    using normalize_city_two_suffixes [of pre suffix mid later rest city] by blast
  from normalize_city_examples A B C D show ?thesis by (intro conjI)
qed

theorem normalize_city_suffix_order_witness:
  "list_all (\<lambda>suffix. \<not> endswith (strip (u '' Tokyo '')) suffix) city_suffixes \<and>
   normalize_city (u '' Tokyo '') = strip (u '' Tokyo '') \<and>
   city_suffixes = [K_teukbyeoljachisi, K_teukbyeolsi] @ K_gwangyeoksi # [K_si] \<and>
   \<not> endswith (strip (K_busan @ K_gwangyeoksi)) K_teukbyeoljachisi \<and>
   \<not> endswith (strip (K_busan @ K_gwangyeoksi)) K_teukbyeolsi \<and>
   endswith (strip (K_busan @ K_gwangyeoksi)) K_gwangyeoksi \<and>
   \<not> endswith (drop_last (length K_gwangyeoksi) (strip (K_busan @ K_gwangyeoksi))) K_si \<and>
   normalize_city (K_busan @ K_gwangyeoksi)
     = strip (drop_last (length K_gwangyeoksi) (strip (K_busan @ K_gwangyeoksi))) \<and>
   normalize_city (K_busan @ K_gwangyeoksi) = spec_normalize_city (K_busan @ K_gwangyeoksi) \<and>
   city_suffixes = [K_teukbyeoljachisi, K_teukbyeolsi] @ K_gwangyeoksi # [] @ K_si # [] \<and>
   \<not> endswith (strip (K_busan @ K_si @ K_gwangyeoksi)) K_teukbyeoljachisi \<and>
   \<not> endswith (strip (K_busan @ K_si @ K_gwangyeoksi)) K_teukbyeolsi \<and>
   endswith (strip (K_busan @ K_si @ K_gwangyeoksi)) K_gwangyeoksi \<and>
   endswith (drop_last (length K_gwangyeoksi) (strip (K_busan @ K_si @ K_gwangyeoksi))) K_si \<and>
   normalize_city (K_busan @ K_si @ K_gwangyeoksi) =
     strip (drop_last (length K_si)
       (drop_last (length K_gwangyeoksi) (strip (K_busan @ K_si @ K_gwangyeoksi)))) \<and>
   normalize_city (K_busan @ K_si @ K_gwangyeoksi) =
     strip (foldl strip_suffix
       (drop_last (length K_gwangyeoksi) (strip (K_busan @ K_si @ K_gwangyeoksi))) [K_si]) \<and>
   spec_normalize_city (K_busan @ K_si @ K_gwangyeoksi) =
     strip (drop_last (length K_gwangyeoksi) (strip (K_busan @ K_si @ K_gwangyeoksi)))"
proof -
  have a: "\<forall>suffix\<in>set city_suffixes. \<not> endswith (strip (u '' Tokyo '')) suffix"
    by code_simp
  then have a': "list_all (\<lambda>suffix. \<not> endswith (strip (u '' Tokyo '')) suffix) city_suffixes"
    by (simp only: list_all_iff)
  have b: "city_suffixes = [K_teukbyeoljachisi, K_teukbyeolsi] @ K_gwangyeoksi # [K_si]"
    by (simp add: city_suffixes_def)
  have b2: "city_suffixes = [K_teukbyeoljachisi, K_teukbyeolsi] @ K_gwangyeoksi # [] @ K_si # []"
    by (simp add: city_suffixes_def)
  have c1: "\<not> endswith (strip (K_busan @ K_gwangyeoksi)) K_teukbyeoljachisi"
    by code_simp
  have c2: "\<not> endswith (strip (K_busan @ K_gwangyeoksi)) K_teukbyeolsi"
    by code_simp
  from c1 c2 have c: "\<forall>p\<in>set [K_teukbyeoljachisi, K_teukbyeolsi].
             \<not> endswith (strip (K_busan @ K_gwangyeoksi)) p"
    by simp
  have d: "endswith (strip (K_busan @ K_gwangyeoksi)) K_gwangyeoksi"
    by code_simp
  have e1: "\<not> endswith (drop_last (length K_gwangyeoksi) (strip (K_busan @ K_gwangyeoksi))) K_si"
    by code_simp
  then have e: "\<forall>q\<in>set [K_si].
             \<not> endswith (drop_last (length K_gwangyeoksi) (strip (K_busan @ K_gwangyeoksi))) q"
    by simp
  have f1: "\<not> endswith (strip (K_busan @ K_si @ K_gwangyeoksi)) K_teukbyeoljachisi"
    by code_simp
  have f2: "\<not> endswith (strip (K_busan @ K_si @ K_gwangyeoksi)) K_teukbyeolsi"
    by code_simp
  from f1 f2 have f: "\<forall>p\<in>set [K_teukbyeoljachisi, K_teukbyeolsi].
             \<not> endswith (strip (K_busan @ K_si @ K_gwangyeoksi)) p"
    by simp
  have g: "endswith (strip (K_busan @ K_si @ K_gwangyeoksi)) K_gwangyeoksi"
    by code_simp
  have h: "endswith (drop_last (length K_gwangyeoksi) (strip (K_busan @ K_si @ K_gwangyeoksi))) K_si"
    by code_simp
  have m0: "\<forall>p\<in>set []. \<not> endswith
      (drop_last (length K_gwangyeoksi) (strip (K_busan @ K_si @ K_gwangyeoksi))) p"
    by simp
  have r0: "\<forall>q\<in>set []. \<not> endswith (drop_last (length K_si)
      (drop_last (length K_gwangyeoksi) (strip (K_busan @ K_si @ K_gwangyeoksi)))) q"
    by simp
  from normalize_city_suffix_order [of "u '' Tokyo ''" "[K_teukbyeoljachisi, K_teukbyeolsi]"
      K_gwangyeoksi "[K_si]" "[]" K_si "[]"] a
  have 1: "normalize_city (u '' Tokyo '') = strip (u '' Tokyo '')" by blast
  from normalize_city_suffix_order [of "K_busan @ K_gwangyeoksi"
      "[K_teukbyeoljachisi, K_teukbyeolsi]" K_gwangyeoksi "[K_si]" "[]" K_si "[]"] b c d e
  have 2: "normalize_city (K_busan @ K_gwangyeoksi)
     = strip (drop_last (length K_gwangyeoksi) (strip (K_busan @ K_gwangyeoksi))) \<and>
   normalize_city (K_busan @ K_gwangyeoksi) = spec_normalize_city (K_busan @ K_gwangyeoksi)"
    by blast
  from normalize_city_suffix_order [of "K_busan @ K_si @ K_gwangyeoksi"
      "[K_teukbyeoljachisi, K_teukbyeolsi]" K_gwangyeoksi "[K_si]" "[]" K_si "[]"] b b2 f g h m0 r0
  have 3: "normalize_city (K_busan @ K_si @ K_gwangyeoksi) =
     strip (drop_last (length K_si)
       (drop_last (length K_gwangyeoksi) (strip (K_busan @ K_si @ K_gwangyeoksi))))"
    and 4: "normalize_city (K_busan @ K_si @ K_gwangyeoksi) =
     strip (foldl strip_suffix
       (drop_last (length K_gwangyeoksi) (strip (K_busan @ K_si @ K_gwangyeoksi))) [K_si])"
    and 5: "spec_normalize_city (K_busan @ K_si @ K_gwangyeoksi) =
     strip (drop_last (length K_gwangyeoksi) (strip (K_busan @ K_si @ K_gwangyeoksi)))"
    by blast+
  from a' 1 b c1 c2 d e1 2 b2 f1 f2 g h 3 4 5 show ?thesis by blast
qed

section \<open>Claims about get_now_weather\<close>

lemma supported_sorted:
  "sort (map fst CITY_TO_GRID) =
     [K_gwangju, K_daegu, K_daejeon, K_busan, K_seoul, K_sejong, K_ulsan, K_incheon]"
  by code_simp

lemma get_now_weather_unsupported:
  assumes "map_of CITY_TO_GRID (normalize_city city) = None"
  shows "need_env env (u ''KMA_SERVICE_KEY'') = Inr key \<Longrightarrow>
           get_now_weather env service now city =
             Replied (Unsupported \<lparr>n_error = K_unsupported_region, n_input = city,
                        n_normalized = normalize_city city,
                        n_supported_cities = sort (map fst CITY_TO_GRID)\<rparr>) []"
    and "need_env env (u ''KMA_SERVICE_KEY'') = Inl e \<Longrightarrow>
           get_now_weather env service now city = Replied (NotConfigured e) []"
  using assms by (simp_all add: get_now_weather_def)

text \<open>
  Claim C9, as stated: for every city whose normalized form is not a supported region
  the result carries the input, the normalized form and the supported regions. The
  service key is checked before the city: when it is not configured the result carries
  the configuration error alone.
\<close>

theorem unsupported_region_without_key_counterexample:
  "map_of CITY_TO_GRID (normalize_city (u ''Tokyo'')) = None \<and>
   get_now_weather no_env unreachable t_13_40 (u ''Tokyo'') =
     Replied (NotConfigured (u ''KMA_SERVICE_KEY'' @ K_env_is_empty)) []"
  by code_simp

text \<open>
  Claim C9, amended. For every city whose normalized form is not a supported region,
  \<open>get_now_weather\<close> returns at once with a failure result and sends no request. When
  the service key is configured the result carries the original input, the normalized
  form and the sorted list of the supported regions; when it is not, the result is the
  configuration error.
\<close>

theorem unsupported_region:
  assumes "map_of CITY_TO_GRID (normalize_city city) = None"
  shows "(need_env env (u ''KMA_SERVICE_KEY'') = Inr key \<longrightarrow>
            get_now_weather env service now city =
              Replied (Unsupported \<lparr>n_error = K_unsupported_region, n_input = city,
                n_normalized = normalize_city city,
                n_supported_cities = [K_gwangju, K_daegu, K_daejeon, K_busan, K_seoul,
                                      K_sejong, K_ulsan, K_incheon]\<rparr>) []) \<and>
         (need_env env (u ''KMA_SERVICE_KEY'') = Inl e \<longrightarrow>
            get_now_weather env service now city = Replied (NotConfigured e) []) \<and>
         (\<exists>r. get_now_weather env service now city = Replied r [] \<and> \<not> ok r)"
proof -
  have "\<exists>r. get_now_weather env service now city = Replied r [] \<and> \<not> ok r"
  proof (cases "need_env env (u ''KMA_SERVICE_KEY'')")
    case (Inl e')
    from get_now_weather_unsupported(2) [OF assms this] show ?thesis by simp
  next
    case (Inr key')
    from get_now_weather_unsupported(1) [OF assms this] show ?thesis by simp
  qed
  then show ?thesis
    by (simp add: get_now_weather_unsupported [OF assms] supported_sorted)
qed

theorem unsupported_region_witness:
  "map_of CITY_TO_GRID (normalize_city (u ''Tokyo'')) = None \<and>
   need_env configured_env (u ''KMA_SERVICE_KEY'') = Inr (u ''key'') \<and>
   get_now_weather configured_env unreachable t_13_40 (u ''Tokyo'') =
     Replied (Unsupported \<lparr>n_error = K_unsupported_region, n_input = u ''Tokyo'',
                n_normalized = normalize_city (u ''Tokyo''),
                n_supported_cities = [K_gwangju, K_daegu, K_daejeon, K_busan, K_seoul,
                                      K_sejong, K_ulsan, K_incheon]\<rparr>) []"
proof -
  have a: "map_of CITY_TO_GRID (normalize_city (u ''Tokyo'')) = None" by code_simp
  have b: "need_env configured_env (u ''KMA_SERVICE_KEY'') = Inr (u ''key'')" by code_simp
  from unsupported_region [OF a, of configured_env "u ''key''" unreachable t_13_40] a b
  show ?thesis by blast
qed

section \<open>Properties of the date formatting\<close>

lemma digits_value_snoc: "digits_value (ds @ [c]) = 10 * digits_value ds + (c - 0x30)"
  by (simp add: digits_value_def)

lemma digits_value_dec_digits: "digits_value (dec_digits n) = int n"
proof (induction n rule: dec_digits.induct)
  case (1 n)
  show ?case
  proof (cases "n < 10")
    case True
    then show ?thesis by (simp add: digits_value_def)
  next
    case False
    with 1 have "digits_value (dec_digits (n div 10)) = int (n div 10)" by simp
    with False show ?thesis
      by (subst dec_digits.simps) (simp add: digits_value_snoc zdiv_int zmod_int)
  qed
qed

lemma digits_value_zeros: "digits_value (replicate k 0x30 @ ds) = digits_value ds"
  by (induction k) (simp_all add: digits_value_def)

lemma length_dec_digits:
  "length (dec_digits n) = (if n < 10 then 1 else Suc (length (dec_digits (n div 10))))"
  by (subst dec_digits.simps) simp

lemma div10_less: "n < 100 \<Longrightarrow> n div 10 < (10::nat)"
  by arith

lemma length_dec_digits_2: "n < 100 \<Longrightarrow> length (dec_digits n) \<le> 2"
  by (simp add: length_dec_digits [of n] length_dec_digits [of "n div 10"] div10_less)

lemma length_dec_digits_4: "n < 10000 \<Longrightarrow> length (dec_digits n) \<le> 4"
  by (simp add: length_dec_digits [of n] length_dec_digits [of "n div 10"]
      length_dec_digits [of "n div 10 div 10"] length_dec_digits [of "n div 10 div 10 div 10"]
      div_mult2_eq [symmetric])

lemma length_dec_digits_pos: "0 < length (dec_digits n)"
  by (simp add: length_dec_digits [of n])

lemma pad2_props: "n < 100 \<Longrightarrow> length (pad2 n) = 2" "digits_value (pad2 n) = int n"
proof -
  show "n < 100 \<Longrightarrow> length (pad2 n) = 2"
    by (simp add: pad2_def length_dec_digits [of n] length_dec_digits [of "n div 10"] div10_less)
  show "digits_value (pad2 n) = int n"
    using digits_value_zeros [of 1 "dec_digits n"]
    by (simp add: pad2_def digits_value_dec_digits del: dec_digits.simps)
qed

lemma pad4_props: "n < 10000 \<Longrightarrow> length (pad4 n) = 4" "digits_value (pad4 n) = int n"
proof -
  show "n < 10000 \<Longrightarrow> length (pad4 n) = 4"
    using length_dec_digits_4 [of n] by (simp add: pad4_def del: dec_digits.simps)
  show "digits_value (pad4 n) = int n"
    by (simp add: pad4_def digits_value_zeros digits_value_dec_digits del: dec_digits.simps)
qed

lemma as_base_date_inj:
  assumes "dt_year a < 10000" "dt_month a < 100" "dt_day a < 100"
    and "dt_year b < 10000" "dt_month b < 100" "dt_day b < 100"
    and eq: "as_base_date a = as_base_date b"
  shows "dt_year a = dt_year b \<and> dt_month a = dt_month b \<and> dt_day a = dt_day b"
proof -
  from eq assms(1,4) have y: "pad4 (dt_year a) = pad4 (dt_year b)"
    and rest: "pad2 (dt_month a) @ pad2 (dt_day a) = pad2 (dt_month b) @ pad2 (dt_day b)"
    by (simp_all add: as_base_date_def pad4_props(1))
  from rest assms(2,5) have m: "pad2 (dt_month a) = pad2 (dt_month b)"
    and d: "pad2 (dt_day a) = pad2 (dt_day b)"
    by (simp_all add: pad2_props(1))
  from y have "int (dt_year a) = int (dt_year b)" by (metis pad4_props(2))
  moreover from m have "int (dt_month a) = int (dt_month b)" by (metis pad2_props(2))
  moreover from d have "int (dt_day a) = int (dt_day b)" by (metis pad2_props(2))
  ultimately show ?thesis by simp
qed

lemma days_in_month_le: "days_in_month y m \<le> 31"
  by (simp add: days_in_month_def)

lemma hour_floor_date: "as_base_date (hour_floor now) = as_base_date now"
  by (simp add: as_base_date_def hour_floor_def)

lemma hour_floor_time: "as_base_time_hour (hour_floor now) = pad2 (dt_hour now) @ u ''00''"
  by (simp add: as_base_time_hour_def hour_floor_def)

lemma minus_one_hour_same_day:
  assumes "0 < dt_hour now"
  shows "\<exists>e. minus_one_hour (hour_floor now) = Some e \<and> as_base_date e = as_base_date now \<and>
             as_base_time_hour e = pad2 (dt_hour now - 1) @ u ''00''"
  using assms
  by (simp add: minus_one_hour_def hour_floor_def as_base_date_def as_base_time_hour_def)

lemma minus_one_hour_midnight:
  assumes v: "valid_datetime now" and y: "1 < dt_year now" and h: "dt_hour now = 0"
  shows "\<exists>e. minus_one_hour (hour_floor now) = Some e \<and> as_base_date e \<noteq> as_base_date now"
proof -
  from v have b: "dt_year now < 10000" "dt_month now < 100" "dt_day now < 100"
    "1 \<le> dt_month now" "1 \<le> dt_day now"
    using days_in_month_le [of "dt_year now" "dt_month now"]
    by (auto simp add: valid_datetime_def)
  from y have "minus_one_hour (hour_floor now) \<noteq> None"
    by (simp add: minus_one_hour_def hour_floor_def)
  then obtain e where e: "minus_one_hour (hour_floor now) = Some e"
    by blast
  have be: "dt_year e < 10000" "dt_month e < 100" "dt_day e < 100"
    using e b h y days_in_month_le [of "dt_year now" "dt_month now - 1"]
    by (auto simp add: minus_one_hour_def hour_floor_def split: if_splits)
  have diff: "\<not> (dt_year e = dt_year now \<and> dt_month e = dt_month now \<and> dt_day e = dt_day now)"
    using e b h y by (auto simp add: minus_one_hour_def hour_floor_def split: if_splits)
  have "as_base_date e \<noteq> as_base_date now"
  proof
    assume "as_base_date e = as_base_date now"
    from as_base_date_inj [OF be b(1-3) this] diff show False by simp
  qed
  with e show ?thesis by blast
qed

lemma midnight_time: "pad2 0 @ u ''00'' = u ''0000''"
  by (simp add: pad2_def u_def)

section \<open>Properties of one attempt\<close>

lemma try_window_sent:
  "sent (snd (try_window service key city_norm nx ny base_date cand st)) =
     sent st @ [request_params key base_date (as_base_time_hour cand) nx ny]"
  by (simp add: try_window_def fetch_ultra_srt_ncst_def Let_def
      split: fetched.splits sum.splits prod.splits)

lemma try_window_accepted:
  assumes "service (length (sent st)) (request_params key base_date (as_base_time_hour cand) nx ny)
             = Returned api_json"
    and "read_header api_json = Inr (u ''00'', msg)"
    and "extract_items api_json \<noteq> []"
    and "normalize_observations (extract_items api_json) = Inr observed"
  shows "try_window service key city_norm nx ny base_date cand st =
           (Some \<lparr>s_region = city_norm, s_grid = (nx, ny), s_base_date = base_date,
                  s_base_time = as_base_time_hour cand, s_observed = observed,
                  s_attempts = attempts st @ [attempt_record base_date cand (u ''00'') msg api_json]\<rparr>,
            \<lparr>attempts = attempts st @ [attempt_record base_date cand (u ''00'') msg api_json],
             last_error = last_error st,
             sent = sent st @ [request_params key base_date (as_base_time_hour cand) nx ny]\<rparr>)"
  using assms
  by (simp add: try_window_def fetch_ultra_srt_ncst_def Let_def attempt_record_def)

lemma try_window_empty:
  assumes "service (length (sent st)) (request_params key base_date (as_base_time_hour cand) nx ny)
             = Returned api_json"
    and "read_header api_json = Inr (code, msg)"
    and "\<not> (code = u ''00'' \<and> extract_items api_json \<noteq> [])"
  shows "try_window service key city_norm nx ny base_date cand st =
           (None,
            \<lparr>attempts = attempts st @ [attempt_record base_date cand code msg api_json],
             last_error = Some (empty_data_message code (length (extract_items api_json))),
             sent = sent st @ [request_params key base_date (as_base_time_hour cand) nx ny]\<rparr>)"
  using assms
  by (auto simp add: try_window_def fetch_ultra_srt_ncst_def Let_def attempt_record_def)

lemma try_window_not_accepted:
  assumes "\<not> accepted (service (length (sent st))
              (request_params key base_date (as_base_time_hour cand) nx ny))"
  shows "fst (try_window service key city_norm nx ny base_date cand st) = None"
  using assms
  by (auto simp add: try_window_def fetch_ultra_srt_ncst_def Let_def accepted_def
      split: fetched.splits sum.splits prod.splits)

lemma try_window_trail:
  "\<exists>extra. attempts (snd (try_window service key city_norm nx ny base_date cand st))
      = attempts st @ extra \<and> length extra \<le> 1"
  by (auto simp add: try_window_def fetch_ultra_srt_ncst_def Let_def
      split: fetched.splits sum.splits prod.splits)

section \<open>Properties of the loop over the windows\<close>

lemma map_of_dict_set:
  "map_of (dict_set k v d) k' = (if k' = k then Some v else map_of d k')"
  by (induction d) auto

lemma describe_item_dict: "is_dict it \<Longrightarrow> \<exists>r. describe_item it = Inr r"
  by (cases it) (simp_all add: describe_item_def Let_def split: option.splits prod.splits)

lemma store_entry_total:
  assumes "dict_has K_gita grouped"
  shows "\<exists>g'. store_entry grouped group0 name_ko e = Inr g' \<and> dict_has K_gita g'"
proof -
  define group' where "group' = (if dict_has group0 grouped then group0 else K_gita)"
  from assms have "dict_has group' grouped" by (simp add: group'_def)
  then obtain members where m: "map_of grouped group' = Some members"
    by (auto simp add: dict_has_def)
  have "store_entry grouped group0 name_ko e =
          Inr (dict_set group' (dict_set (if dict_has name_ko members
                 then name_ko @ u ''('' @ e_code e @ u '')'' else name_ko) e members) grouped)"
    unfolding store_entry_def Let_def group'_def [symmetric] by (simp add: m)
  moreover have "dict_has K_gita (dict_set group' (dict_set (if dict_has name_ko members
                 then name_ko @ u ''('' @ e_code e @ u '')'' else name_ko) e members) grouped)"
    using assms by (simp add: dict_has_def map_of_dict_set)
  ultimately show ?thesis by simp
qed

lemma normalize_loop_total:
  "dict_has K_gita grouped \<Longrightarrow> list_all is_dict items \<Longrightarrow>
     \<exists>g. normalize_loop grouped items = Inr g"
proof (induction items arbitrary: grouped)
  case Nil
  then show ?case by simp
next
  case (Cons it items)
  from Cons.prems obtain r where r: "describe_item it = Inr r"
    using describe_item_dict [of it] by auto
  obtain g0 n e where rr: "r = (g0, n, e)" by (cases r) auto
  from store_entry_total [OF Cons.prems(1), of g0 n e]
  obtain g' where g': "store_entry grouped g0 n e = Inr g'" "dict_has K_gita g'" by blast
  from Cons.IH [OF g'(2)] Cons.prems(2) obtain g where "normalize_loop g' items = Inr g"
    by auto
  then show ?case by (simp add: normalize_item_def r rr g'(1))
qed

lemma normalize_observations_total:
  "list_all is_dict items \<Longrightarrow> \<exists>g. normalize_observations items = Inr g"
  unfolding normalize_observations_def
  by (rule normalize_loop_total) (simp_all add: dict_has_def empty_groups_def)

lemma window_loop_filter:
  "window_loop service key city_norm nx ny base_date cands st =
   window_loop service key city_norm nx ny base_date
     (filter (\<lambda>c. as_base_date c = base_date) cands) st"
  by (induction cands arbitrary: st) (simp_all split: prod.splits option.splits)

lemma window_loop_sent:
  "\<exists>k. sent (snd (window_loop service key city_norm nx ny base_date cands st)) =
     sent st @ map (\<lambda>c. request_params key base_date (as_base_time_hour c) nx ny)
       (take k (filter (\<lambda>c. as_base_date c = base_date) cands))"
proof (induction cands arbitrary: st)
  case Nil
  then show ?case by simp
next
  case (Cons c cands)
  show ?case
  proof (cases "as_base_date c = base_date")
    case False
    with Cons.IH [of st] show ?thesis by simp
  next
    case True
    obtain r st' where t: "try_window service key city_norm nx ny base_date c st = (r, st')"
      by (cases "try_window service key city_norm nx ny base_date c st") auto
    have s: "sent st' = sent st @ [request_params key base_date (as_base_time_hour c) nx ny]"
      using try_window_sent [of service key city_norm nx ny base_date c st] t by simp
    show ?thesis
    proof (cases r)
      case (Some result)
      have "sent (snd (window_loop service key city_norm nx ny base_date (c # cands) st)) =
              sent st @ map (\<lambda>c. request_params key base_date (as_base_time_hour c) nx ny)
              (take (Suc 0) (filter (\<lambda>c. as_base_date c = base_date) (c # cands)))"
        using True s t Some by simp
      then show ?thesis by blast
    next
      case None
      from Cons.IH [of st'] obtain k where
        "sent (snd (window_loop service key city_norm nx ny base_date cands st')) =
           sent st' @ map (\<lambda>c. request_params key base_date (as_base_time_hour c) nx ny)
             (take k (filter (\<lambda>c. as_base_date c = base_date) cands))" by blast
      then have "sent (snd (window_loop service key city_norm nx ny base_date (c # cands) st)) =
           sent st @ map (\<lambda>c. request_params key base_date (as_base_time_hour c) nx ny)
             (take (Suc k) (filter (\<lambda>c. as_base_date c = base_date) (c # cands)))"
        using True t None s by simp
      then show ?thesis by blast
    qed
  qed
qed

lemma spec_windows_midnight:
  assumes "valid_datetime now" and "1 < dt_year now" and "dt_hour now = 0"
  shows "spec_windows now = [hour_floor now]"
  using minus_one_hour_midnight [OF assms]
  by (auto simp add: spec_windows_def hour_floor_date)

lemma spec_windows_daytime:
  assumes "0 < dt_hour now"
  shows "spec_windows now = [hour_floor now, hour_floor now\<lparr>dt_hour := dt_hour now - 1\<rparr>]"
  using assms
  by (simp add: spec_windows_def minus_one_hour_def hour_floor_def as_base_date_def Let_def)

lemma candidates_eligible:
  assumes "minus_one_hour (hour_floor now) = Some earlier"
  shows "filter (\<lambda>c. as_base_date c = as_base_date now) [hour_floor now, earlier] = spec_windows now"
  using assms by (simp add: spec_windows_def hour_floor_date)

lemma minus_one_hour_defined:
  assumes "1 < dt_year now"
  shows "\<exists>earlier. minus_one_hour (hour_floor now) = Some earlier"
  using assms by (simp add: minus_one_hour_def hour_floor_def)

lemma length_spec_windows: "length (spec_windows now) \<le> 2"
  by (simp add: spec_windows_def Let_def split: option.splits)

lemma get_now_weather_loop:
  assumes "need_env env (u ''KMA_SERVICE_KEY'') = Inr key"
    and "map_of CITY_TO_GRID (normalize_city city) = Some (nx, ny)"
    and "1 < dt_year now"
  shows "get_now_weather env service now city =
           (case window_loop service key (normalize_city city) nx ny (as_base_date now)
                   (spec_windows now) \<lparr>attempts = [], last_error = None, sent = []\<rparr> of
              (Some result, st) \<Rightarrow> Replied (Success result) (sent st)
            | (None, st) \<Rightarrow>
                Replied (Failure
                  \<lparr>f_error = (case last_error st of None \<Rightarrow> K_unknown_error
                               | Some e \<Rightarrow> if e = [] then K_unknown_error else e),
                   f_region = normalize_city city, f_grid = (nx, ny),
                   f_base_date = as_base_date now,
                   f_candidate_times = map as_base_time_hour (spec_windows now),
                   f_attempts = attempts st\<rparr>) (sent st))"
proof -
  from minus_one_hour_defined [OF assms(3)] obtain earlier
    where e: "minus_one_hour (hour_floor now) = Some earlier" by blast
  have w: "window_loop service key (normalize_city city) nx ny (as_base_date now)
             [hour_floor now, earlier] \<lparr>attempts = [], last_error = None, sent = []\<rparr> =
           window_loop service key (normalize_city city) nx ny (as_base_date now)
             (spec_windows now) \<lparr>attempts = [], last_error = None, sent = []\<rparr>"
    using window_loop_filter [of service key "normalize_city city" nx ny "as_base_date now"
        "[hour_floor now, earlier]"]
    by (simp only: candidates_eligible [OF e])
  show ?thesis
    unfolding get_now_weather_def Let_def
    by (simp only: assms(1,2) e w candidates_eligible [OF e] sum.case option.case prod.case)
qed

lemma requests_sent_windows:
  "\<exists>k. map window_of (requests_sent (get_now_weather env service now city)) =
     take k (map (\<lambda>c. (as_base_date now, as_base_time_hour c)) (spec_windows now))"
proof (cases "need_env env (u ''KMA_SERVICE_KEY'')")
  case (Inl e)
  then have "requests_sent (get_now_weather env service now city) = []"
    by (simp add: get_now_weather_def)
  then have "map window_of (requests_sent (get_now_weather env service now city)) =
     take 0 (map (\<lambda>c. (as_base_date now, as_base_time_hour c)) (spec_windows now))" by simp
  then show ?thesis by blast
next
  case (Inr key)
  show ?thesis
  proof (cases "map_of CITY_TO_GRID (normalize_city city)")
    case None
    with Inr have "requests_sent (get_now_weather env service now city) = []"
      by (simp add: get_now_weather_def)
    then have "map window_of (requests_sent (get_now_weather env service now city)) =
      take 0 (map (\<lambda>c. (as_base_date now, as_base_time_hour c)) (spec_windows now))" by simp
    then show ?thesis by blast
  next
    case (Some grid)
    obtain nx ny where g: "grid = (nx, ny)" by (cases grid) auto
    show ?thesis
    proof (cases "minus_one_hour (hour_floor now)")
      case None
      with Inr Some g have "requests_sent (get_now_weather env service now city) = []"
        by (simp add: get_now_weather_def)
      then have "map window_of (requests_sent (get_now_weather env service now city)) =
        take 0 (map (\<lambda>c. (as_base_date now, as_base_time_hour c)) (spec_windows now))" by simp
      then show ?thesis by blast
    next
      case (Some earlier)
      note e = this
      define st where "st = snd (window_loop service key (normalize_city city) nx ny
          (as_base_date now) [hour_floor now, earlier]
          \<lparr>attempts = [], last_error = None, sent = []\<rparr>)"
      from window_loop_sent [of service key "normalize_city city" nx ny "as_base_date now"
          "[hour_floor now, earlier]" "\<lparr>attempts = [], last_error = None, sent = []\<rparr>"]
      obtain k where k: "sent st =
          map (\<lambda>c. request_params key (as_base_date now) (as_base_time_hour c) nx ny)
            (take k (spec_windows now))"
        unfolding st_def by (auto simp only: candidates_eligible [OF e] loop_state.simps append_Nil)
      have r: "requests_sent (get_now_weather env service now city) = sent st"
        unfolding get_now_weather_def Let_def st_def
        by (simp add: Inr \<open>map_of CITY_TO_GRID (normalize_city city) = Some grid\<close> g e
            split: prod.splits option.splits)
      have "map window_of (requests_sent (get_now_weather env service now city)) =
        take k (map (\<lambda>c. (as_base_date now, as_base_time_hour c)) (spec_windows now))"
        unfolding r k by (simp add: take_map window_of_def request_params_def comp_def)
      then show ?thesis by blast
    qed
  qed
qed

lemma requests_sent_prefix:
  "map window_of (requests_sent (get_now_weather env service now city)) =
     take (length (requests_sent (get_now_weather env service now city)))
       (map (\<lambda>c. (as_base_date now, as_base_time_hour c)) (spec_windows now))"
proof -
  from requests_sent_windows [of env service now city] obtain k where
    k: "map window_of (requests_sent (get_now_weather env service now city)) =
     take k (map (\<lambda>c. (as_base_date now, as_base_time_hour c)) (spec_windows now))" by blast
  define ws where "ws = map (\<lambda>c. (as_base_date now, as_base_time_hour c)) (spec_windows now)"
  define rs where "rs = map window_of (requests_sent (get_now_weather env service now city))"
  have "rs = take k ws" using k by (simp add: ws_def rs_def)
  then have "rs = take (length rs) ws" by (simp add: min_def)
  then show ?thesis by (simp add: ws_def rs_def)
qed

lemma requests_sent_le_2:
  "length (requests_sent (get_now_weather env service now city)) \<le> 2"
proof -
  from requests_sent_windows [of env service now city] obtain k where
    k: "map window_of (requests_sent (get_now_weather env service now city)) =
     take k (map (\<lambda>c. (as_base_date now, as_base_time_hour c)) (spec_windows now))" by blast
  have "length (requests_sent (get_now_weather env service now city)) =
        length (map window_of (requests_sent (get_now_weather env service now city)))" by simp
  also have "\<dots> \<le> length (spec_windows now)" unfolding k by simp
  finally show ?thesis using length_spec_windows [of now] by simp
qed

section \<open>The sample inputs\<close>

lemma configured_key: "need_env configured_env (u ''KMA_SERVICE_KEY'') = Inr (u ''key'')"
  by code_simp

lemma seoul_grid: "map_of CITY_TO_GRID (normalize_city K_seoul) = Some (60, 127)"
  by code_simp

lemma sample_times:
  "valid_datetime t_00_15" "1 < dt_year t_00_15" "dt_hour t_00_15 = 0"
  "valid_datetime t_13_40" "1 < dt_year t_13_40" "0 < dt_hour t_13_40"
  by (simp_all add: valid_datetime_def t_00_15_def t_13_40_def days_in_month_def)

lemma sample_dates:
  "as_base_date t_00_15 = u ''20260301''"
  "as_base_date t_13_40 = u ''20261103''"
  by (simp_all add: as_base_date_def t_00_15_def t_13_40_def pad4_def pad2_def u_def)

lemma sample_windows:
  "map as_base_time_hour (spec_windows t_00_15) = [u ''0000'']"
  "map as_base_time_hour (spec_windows t_13_40) = [u ''1300'', u ''1200'']"
proof -
  show "map as_base_time_hour (spec_windows t_00_15) = [u ''0000'']"
    unfolding spec_windows_midnight [OF sample_times(1-3)]
    by (simp add: as_base_time_hour_def hour_floor_def t_00_15_def pad2_def u_def)
  show "map as_base_time_hour (spec_windows t_13_40) = [u ''1300'', u ''1200'']"
    unfolding spec_windows_daytime [OF sample_times(6)]
    by (simp add: as_base_time_hour_def hour_floor_def t_13_40_def pad2_def u_def)
qed

lemma unreachable_requests:
  "map window_of (requests_sent (get_now_weather configured_env unreachable t_00_15 K_seoul))
     = [(u ''20260301'', u ''0000'')]"
  "map window_of (requests_sent (get_now_weather configured_env unreachable t_13_40 K_seoul))
     = [(u ''20261103'', u ''1300''), (u ''20261103'', u ''1200'')]"
proof -
  have a: "as_base_date (hour_floor t_13_40\<lparr>dt_hour := dt_hour t_13_40 - Suc 0\<rparr>) = as_base_date t_13_40"
    by (simp add: as_base_date_def hour_floor_def)
  have t: "as_base_time_hour (hour_floor t_00_15) = u ''0000''"
    "as_base_time_hour (hour_floor t_13_40) = u ''1300''"
    "as_base_time_hour (hour_floor t_13_40\<lparr>dt_hour := dt_hour t_13_40 - Suc 0\<rparr>) = u ''1200''"
    by (simp_all add: as_base_time_hour_def hour_floor_def t_00_15_def t_13_40_def pad2_def u_def)
  show "map window_of (requests_sent (get_now_weather configured_env unreachable t_00_15 K_seoul))
     = [(u ''20260301'', u ''0000'')]"
    unfolding get_now_weather_loop [OF configured_key seoul_grid sample_times(2)]
      spec_windows_midnight [OF sample_times(1-3)]
    by (simp add: hour_floor_date try_window_def fetch_ultra_srt_ncst_def unreachable_def
        window_of_def request_params_def t sample_dates)
  show "map window_of (requests_sent (get_now_weather configured_env unreachable t_13_40 K_seoul))
     = [(u ''20261103'', u ''1300''), (u ''20261103'', u ''1200'')]"
    unfolding get_now_weather_loop [OF configured_key seoul_grid sample_times(5)]
      spec_windows_daytime [OF sample_times(6)]
    by (simp add: hour_floor_date a try_window_def fetch_ultra_srt_ncst_def unreachable_def
        window_of_def request_params_def t sample_dates)
qed

section \<open>Claim about the candidate windows\<close>

text \<open>
  Claim C1. Whatever the environment, the upstream service, the current local time and
  the city, \<open>get_now_weather\<close> sends at most two requests, and the windows it asks for
  are, in order, an initial part of the windows of the specification (\<open>spec_windows\<close>:
  the current time truncated to the hour, then the hour before when it falls on the same
  calendar date), each with the date of the current time. For a time of the calendar in
  a year after year 1 and in the hour after midnight the only window is the truncated
  time; in any later hour the windows are the truncated time and the hour before it. At
  00:15 the only window is 0000; at 13:40 the windows are 1300 and 1200, and an
  unreachable service receives exactly these requests.
\<close>

theorem candidate_windows:
  "length (requests_sent (get_now_weather env service now city)) \<le> 2 \<and>
   map window_of (requests_sent (get_now_weather env service now city)) =
     take (length (requests_sent (get_now_weather env service now city)))
       (map (\<lambda>c. (as_base_date now, as_base_time_hour c)) (spec_windows now)) \<and>
   (valid_datetime now \<and> 1 < dt_year now \<and> dt_hour now = 0 \<longrightarrow>
      spec_windows now = [hour_floor now]) \<and>
   (0 < dt_hour now \<longrightarrow>
      spec_windows now = [hour_floor now, hour_floor now\<lparr>dt_hour := dt_hour now - 1\<rparr>]) \<and>
   map as_base_time_hour (spec_windows t_00_15) = [u ''0000''] \<and>
   map as_base_time_hour (spec_windows t_13_40) = [u ''1300'', u ''1200''] \<and>
   map window_of (requests_sent (get_now_weather configured_env unreachable t_00_15 K_seoul))
     = [(u ''20260301'', u ''0000'')] \<and>
   map window_of (requests_sent (get_now_weather configured_env unreachable t_13_40 K_seoul))
     = [(u ''20261103'', u ''1300''), (u ''20261103'', u ''1200'')]"
proof -
  note requests_sent_le_2 [of env service now city]
  moreover note requests_sent_prefix [of env service now city]
  moreover have "valid_datetime now \<and> 1 < dt_year now \<and> dt_hour now = 0 \<longrightarrow>
      spec_windows now = [hour_floor now]"
    using spec_windows_midnight [of now] by blast
  moreover have "0 < dt_hour now \<longrightarrow>
      spec_windows now = [hour_floor now, hour_floor now\<lparr>dt_hour := dt_hour now - 1\<rparr>]"
    using spec_windows_daytime [of now] by blast
  moreover note sample_windows unreachable_requests
  ultimately show ?thesis by blast
qed

theorem candidate_windows_witness:
  "valid_datetime t_00_15 \<and> 1 < dt_year t_00_15 \<and> dt_hour t_00_15 = 0 \<and>
   spec_windows t_00_15 = [hour_floor t_00_15] \<and>
   0 < dt_hour t_13_40 \<and>
   spec_windows t_13_40 = [hour_floor t_13_40, hour_floor t_13_40\<lparr>dt_hour := dt_hour t_13_40 - 1\<rparr>] \<and>
   length (requests_sent (get_now_weather configured_env unreachable t_13_40 K_seoul)) \<le> 2"
proof -
  have a: "valid_datetime t_00_15 \<and> 1 < dt_year t_00_15 \<and> dt_hour t_00_15 = 0"
    by (simp add: valid_datetime_def t_00_15_def days_in_month_def)
  have b: "0 < dt_hour t_13_40"
    by (simp add: t_13_40_def)
  from candidate_windows [of configured_env unreachable t_00_15 K_seoul] a
  have 1: "spec_windows t_00_15 = [hour_floor t_00_15]" by blast
  from candidate_windows [of configured_env unreachable t_13_40 K_seoul] b
  have 2: "spec_windows t_13_40 = [hour_floor t_13_40, hour_floor t_13_40\<lparr>dt_hour := dt_hour t_13_40 - 1\<rparr>]"
    and 3: "length (requests_sent (get_now_weather configured_env unreachable t_13_40 K_seoul)) \<le> 2"
    by blast+
  from a b 1 2 3 show ?thesis by blast
qed

section \<open>Windows that give no data\<close>

lemma empty_data_message_nonempty: "empty_data_message code n \<noteq> []"
  by (simp add: empty_data_message_def K_empty_data_def)

lemma window_loop_one_empty:
  assumes "as_base_date c1 = base_date"
    and "service 0 (request_params key base_date (as_base_time_hour c1) nx ny) = Returned j1"
    and "read_header j1 = Inr (code1, msg1)"
    and "\<not> (code1 = u ''00'' \<and> extract_items j1 \<noteq> [])"
  shows "window_loop service key city_norm nx ny base_date [c1]
           \<lparr>attempts = [], last_error = None, sent = []\<rparr> =
         (None, \<lparr>attempts = [attempt_record base_date c1 code1 msg1 j1],
                 last_error = Some (empty_data_message code1 (length (extract_items j1))),
                 sent = [request_params key base_date (as_base_time_hour c1) nx ny]\<rparr>)"
  using try_window_empty [of service "\<lparr>attempts = [], last_error = None, sent = []\<rparr>"
      key base_date c1 nx ny j1 code1 msg1 city_norm] assms
  by simp

lemma window_loop_two_empty:
  assumes "as_base_date c1 = base_date" and "as_base_date c2 = base_date"
    and "service 0 (request_params key base_date (as_base_time_hour c1) nx ny) = Returned j1"
    and "read_header j1 = Inr (code1, msg1)"
    and "\<not> (code1 = u ''00'' \<and> extract_items j1 \<noteq> [])"
    and "service 1 (request_params key base_date (as_base_time_hour c2) nx ny) = Returned j2"
    and "read_header j2 = Inr (code2, msg2)"
    and "\<not> (code2 = u ''00'' \<and> extract_items j2 \<noteq> [])"
  shows "window_loop service key city_norm nx ny base_date [c1, c2]
           \<lparr>attempts = [], last_error = None, sent = []\<rparr> =
         (None, \<lparr>attempts = [attempt_record base_date c1 code1 msg1 j1,
                             attempt_record base_date c2 code2 msg2 j2],
                 last_error = Some (empty_data_message code2 (length (extract_items j2))),
                 sent = [request_params key base_date (as_base_time_hour c1) nx ny,
                         request_params key base_date (as_base_time_hour c2) nx ny]\<rparr>)"
proof -
  define st1 where "st1 = \<lparr>attempts = [attempt_record base_date c1 code1 msg1 j1],
                 last_error = Some (empty_data_message code1 (length (extract_items j1))),
                 sent = [request_params key base_date (as_base_time_hour c1) nx ny]\<rparr>"
  have 1: "try_window service key city_norm nx ny base_date c1
             \<lparr>attempts = [], last_error = None, sent = []\<rparr> = (None, st1)"
    using try_window_empty [of service "\<lparr>attempts = [], last_error = None, sent = []\<rparr>"
      key base_date c1 nx ny j1 code1 msg1 city_norm] assms(3-5)
    by (simp add: st1_def)
  have 2: "try_window service key city_norm nx ny base_date c2 st1 =
         (None, \<lparr>attempts = [attempt_record base_date c1 code1 msg1 j1,
                             attempt_record base_date c2 code2 msg2 j2],
                 last_error = Some (empty_data_message code2 (length (extract_items j2))),
                 sent = [request_params key base_date (as_base_time_hour c1) nx ny,
                         request_params key base_date (as_base_time_hour c2) nx ny]\<rparr>)"
    using try_window_empty [of service st1 key base_date c2 nx ny j2 code2 msg2 city_norm]
      assms(6-8)
    by (simp add: st1_def)
  show ?thesis using assms(1,2) by (simp add: 1 2)
qed

lemma get_now_weather_midnight_empty:
  assumes "need_env env (u ''KMA_SERVICE_KEY'') = Inr key"
    and "map_of CITY_TO_GRID (normalize_city city) = Some (nx, ny)"
    and "valid_datetime now" and "1 < dt_year now" and "dt_hour now = 0"
    and "service 0 (request_params key (as_base_date now) (u ''0000'') nx ny) = Returned j1"
    and "read_header j1 = Inr (code1, msg1)"
    and "\<not> (code1 = u ''00'' \<and> extract_items j1 \<noteq> [])"
  shows "get_now_weather env service now city =
     Replied (Failure
       \<lparr>f_error = empty_data_message code1 (length (extract_items j1)),
        f_region = normalize_city city, f_grid = (nx, ny), f_base_date = as_base_date now,
        f_candidate_times = [u ''0000''],
        f_attempts = [attempt_record (as_base_date now) (hour_floor now) code1 msg1 j1]\<rparr>)
       [request_params key (as_base_date now) (u ''0000'') nx ny]"
proof -
  have t: "as_base_time_hour (hour_floor now) = u ''0000''"
    using assms(5) by (simp add: hour_floor_time midnight_time)
  show ?thesis
    unfolding get_now_weather_loop [OF assms(1,2,4)] spec_windows_midnight [OF assms(3-5)]
    using window_loop_one_empty [of "hour_floor now" "as_base_date now" service key nx ny j1
        code1 msg1 "normalize_city city"] assms(6-8)
    by (simp add: hour_floor_date t empty_data_message_nonempty)
qed

lemma get_now_weather_daytime_empty:
  assumes "need_env env (u ''KMA_SERVICE_KEY'') = Inr key"
    and "map_of CITY_TO_GRID (normalize_city city) = Some (nx, ny)"
    and "1 < dt_year now" and "0 < dt_hour now"
    and "service 0 (request_params key (as_base_date now) (pad2 (dt_hour now) @ u ''00'') nx ny)
           = Returned j1"
    and "read_header j1 = Inr (code1, msg1)"
    and "\<not> (code1 = u ''00'' \<and> extract_items j1 \<noteq> [])"
    and "service 1 (request_params key (as_base_date now) (pad2 (dt_hour now - 1) @ u ''00'') nx ny)
           = Returned j2"
    and "read_header j2 = Inr (code2, msg2)"
    and "\<not> (code2 = u ''00'' \<and> extract_items j2 \<noteq> [])"
  shows "get_now_weather env service now city =
     Replied (Failure
       \<lparr>f_error = empty_data_message code2 (length (extract_items j2)),
        f_region = normalize_city city, f_grid = (nx, ny), f_base_date = as_base_date now,
        f_candidate_times = [pad2 (dt_hour now) @ u ''00'', pad2 (dt_hour now - 1) @ u ''00''],
        f_attempts = [attempt_record (as_base_date now) (hour_floor now) code1 msg1 j1,
                      attempt_record (as_base_date now)
                        (hour_floor now\<lparr>dt_hour := dt_hour now - 1\<rparr>) code2 msg2 j2]\<rparr>)
       [request_params key (as_base_date now) (pad2 (dt_hour now) @ u ''00'') nx ny,
        request_params key (as_base_date now) (pad2 (dt_hour now - 1) @ u ''00'') nx ny]"
proof -
  define c2 where "c2 = hour_floor now\<lparr>dt_hour := dt_hour now - 1\<rparr>"
  have t: "as_base_time_hour (hour_floor now) = pad2 (dt_hour now) @ u ''00''"
    "as_base_time_hour c2 = pad2 (dt_hour now - 1) @ u ''00''"
    by (simp_all add: as_base_time_hour_def hour_floor_def c2_def)
  have d: "as_base_date (hour_floor now) = as_base_date now" "as_base_date c2 = as_base_date now"
    by (simp_all add: as_base_date_def hour_floor_def c2_def)
  have w: "window_loop service key (normalize_city city) nx ny (as_base_date now)
             [hour_floor now, c2] \<lparr>attempts = [], last_error = None, sent = []\<rparr> =
         (None, \<lparr>attempts = [attempt_record (as_base_date now) (hour_floor now) code1 msg1 j1,
                             attempt_record (as_base_date now) c2 code2 msg2 j2],
                 last_error = Some (empty_data_message code2 (length (extract_items j2))),
                 sent = [request_params key (as_base_date now) (as_base_time_hour (hour_floor now)) nx ny,
                         request_params key (as_base_date now) (as_base_time_hour c2) nx ny]\<rparr>)"
    using window_loop_two_empty [of "hour_floor now" "as_base_date now" c2 service key nx ny
        j1 code1 msg1 j2 code2 msg2 "normalize_city city"] d assms(5-10)
    by (simp add: t)
  show ?thesis
    unfolding get_now_weather_loop [OF assms(1,2,3)] spec_windows_daytime [OF assms(4)]
      c2_def [symmetric] w
    by (simp add: t empty_data_message_nonempty)
qed

lemma seoul_normal: "normalize_city K_seoul = K_seoul"
  by code_simp

lemma no_data_envelope:
  "read_header (envelope ''00'' []) = Inr (u ''00'', u ''OK'')"
  "extract_items (envelope ''00'' []) = []"
  by code_simp+

lemma no_data_message:
  "empty_data_message (u ''00'') 0 = K_empty_data @ u ''(resultCode=00, count=0)''"
  by (simp add: empty_data_message_def str_int_def u_def)

lemma sample_hours:
  "pad2 (dt_hour t_13_40) @ u ''00'' = u ''1300''"
  "pad2 (dt_hour t_13_40 - 1) @ u ''00'' = u ''1200''"
  by (simp_all add: t_13_40_def pad2_def u_def)

lemma no_data_failure:
  "get_now_weather configured_env no_data t_13_40 K_seoul =
     Replied (Failure
       \<lparr>f_error = K_empty_data @ u ''(resultCode=00, count=0)'',
        f_region = K_seoul, f_grid = (60, 127), f_base_date = u ''20261103'',
        f_candidate_times = [u ''1300'', u ''1200''],
        f_attempts =
          [\<lparr>a_base_date = u ''20261103'', a_base_time = u ''1300'', a_resultCode = u ''00'',
            a_resultMsg = u ''OK'', a_count = 0\<rparr>,
           \<lparr>a_base_date = u ''20261103'', a_base_time = u ''1200'', a_resultCode = u ''00'',
            a_resultMsg = u ''OK'', a_count = 0\<rparr>]\<rparr>)
       [request_params (u ''key'') (u ''20261103'') (u ''1300'') 60 127,
        request_params (u ''key'') (u ''20261103'') (u ''1200'') 60 127]"
proof -
  have t: "as_base_time_hour (hour_floor t_13_40) = u ''1300''"
    "as_base_time_hour (hour_floor t_13_40\<lparr>dt_hour := dt_hour t_13_40 - 1\<rparr>) = u ''1200''"
    by (simp_all add: as_base_time_hour_def hour_floor_def t_13_40_def pad2_def u_def)
  have "get_now_weather configured_env no_data t_13_40 K_seoul =
     Replied (Failure
       \<lparr>f_error = empty_data_message (u ''00'') (length (extract_items (envelope ''00'' []))),
        f_region = normalize_city K_seoul, f_grid = (60, 127), f_base_date = as_base_date t_13_40,
        f_candidate_times = [pad2 (dt_hour t_13_40) @ u ''00'', pad2 (dt_hour t_13_40 - 1) @ u ''00''],
        f_attempts = [attempt_record (as_base_date t_13_40) (hour_floor t_13_40) (u ''00'') (u ''OK'')
                        (envelope ''00'' []),
                      attempt_record (as_base_date t_13_40)
                        (hour_floor t_13_40\<lparr>dt_hour := dt_hour t_13_40 - 1\<rparr>) (u ''00'') (u ''OK'')
                        (envelope ''00'' [])]\<rparr>)
       [request_params (u ''key'') (as_base_date t_13_40) (pad2 (dt_hour t_13_40) @ u ''00'') 60 127,
        request_params (u ''key'') (as_base_date t_13_40) (pad2 (dt_hour t_13_40 - 1) @ u ''00'') 60 127]"
    by (rule get_now_weather_daytime_empty [OF configured_key seoul_grid sample_times(5,6)])
      (simp_all add: no_data_def no_data_envelope)
  then show ?thesis
    by (simp only: t no_data_envelope no_data_message sample_hours sample_dates seoul_normal
        attempt_record_def list.size)
qed

section \<open>Claim about the exhausted windows\<close>

text \<open>
  Claim C3. With the service key configured and a supported city, when the response of
  every eligible window is parsed (\<open>read_header\<close> gives its result code and message) and
  not accepted (the result code is not \<open>00\<close> or the item list is empty),
  \<open>get_now_weather\<close> returns the failure result: its error is the empty-data message of
  the last window, and it carries the normalized region, the grid pair, the date, the
  eligible candidate times and the attempt trail, one record per eligible window. In the
  hour after midnight there is one window and one record; in a later hour there are two
  windows and exactly two records. With a service whose item lists are empty, at 13:40
  for Seoul, the two records are those of 1300 and 1200 and the message is the
  empty-data message with \<open>resultCode=00, count=0\<close>.
\<close>

theorem exhausted_windows:
  "(need_env env (u ''KMA_SERVICE_KEY'') = Inr key \<and>
    map_of CITY_TO_GRID (normalize_city city) = Some (nx, ny) \<and>
    valid_datetime now \<and> 1 < dt_year now \<and> dt_hour now = 0 \<and>
    service 0 (request_params key (as_base_date now) (u ''0000'') nx ny) = Returned j1 \<and>
    read_header j1 = Inr (code1, msg1) \<and> \<not> (code1 = u ''00'' \<and> extract_items j1 \<noteq> [])
    \<longrightarrow>
    get_now_weather env service now city =
      Replied (Failure
        \<lparr>f_error = empty_data_message code1 (length (extract_items j1)),
         f_region = normalize_city city, f_grid = (nx, ny), f_base_date = as_base_date now,
         f_candidate_times = [u ''0000''],
         f_attempts = [attempt_record (as_base_date now) (hour_floor now) code1 msg1 j1]\<rparr>)
        [request_params key (as_base_date now) (u ''0000'') nx ny]) \<and>
   (need_env env (u ''KMA_SERVICE_KEY'') = Inr key \<and>
    map_of CITY_TO_GRID (normalize_city city) = Some (nx, ny) \<and>
    1 < dt_year now \<and> 0 < dt_hour now \<and>
    service 0 (request_params key (as_base_date now) (pad2 (dt_hour now) @ u ''00'') nx ny)
      = Returned j1 \<and>
    read_header j1 = Inr (code1, msg1) \<and> \<not> (code1 = u ''00'' \<and> extract_items j1 \<noteq> []) \<and>
    service 1 (request_params key (as_base_date now) (pad2 (dt_hour now - 1) @ u ''00'') nx ny)
      = Returned j2 \<and>
    read_header j2 = Inr (code2, msg2) \<and> \<not> (code2 = u ''00'' \<and> extract_items j2 \<noteq> [])
    \<longrightarrow>
    get_now_weather env service now city =
      Replied (Failure
        \<lparr>f_error = empty_data_message code2 (length (extract_items j2)),
         f_region = normalize_city city, f_grid = (nx, ny), f_base_date = as_base_date now,
         f_candidate_times = [pad2 (dt_hour now) @ u ''00'', pad2 (dt_hour now - 1) @ u ''00''],
         f_attempts = [attempt_record (as_base_date now) (hour_floor now) code1 msg1 j1,
                       attempt_record (as_base_date now)
                         (hour_floor now\<lparr>dt_hour := dt_hour now - 1\<rparr>) code2 msg2 j2]\<rparr>)
        [request_params key (as_base_date now) (pad2 (dt_hour now) @ u ''00'') nx ny,
         request_params key (as_base_date now) (pad2 (dt_hour now - 1) @ u ''00'') nx ny]) \<and>
   get_now_weather configured_env no_data t_13_40 K_seoul =
     Replied (Failure
       \<lparr>f_error = K_empty_data @ u ''(resultCode=00, count=0)'',
        f_region = K_seoul, f_grid = (60, 127), f_base_date = u ''20261103'',
        f_candidate_times = [u ''1300'', u ''1200''],
        f_attempts =
          [\<lparr>a_base_date = u ''20261103'', a_base_time = u ''1300'', a_resultCode = u ''00'',
            a_resultMsg = u ''OK'', a_count = 0\<rparr>,
           \<lparr>a_base_date = u ''20261103'', a_base_time = u ''1200'', a_resultCode = u ''00'',
            a_resultMsg = u ''OK'', a_count = 0\<rparr>]\<rparr>)
       [request_params (u ''key'') (u ''20261103'') (u ''1300'') 60 127,
        request_params (u ''key'') (u ''20261103'') (u ''1200'') 60 127]"
proof (intro conjI impI)
  assume "need_env env (u ''KMA_SERVICE_KEY'') = Inr key \<and>
    map_of CITY_TO_GRID (normalize_city city) = Some (nx, ny) \<and>
    valid_datetime now \<and> 1 < dt_year now \<and> dt_hour now = 0 \<and>
    service 0 (request_params key (as_base_date now) (u ''0000'') nx ny) = Returned j1 \<and>
    read_header j1 = Inr (code1, msg1) \<and> \<not> (code1 = u ''00'' \<and> extract_items j1 \<noteq> [])"
  then show "get_now_weather env service now city =
      Replied (Failure
        \<lparr>f_error = empty_data_message code1 (length (extract_items j1)),
         f_region = normalize_city city, f_grid = (nx, ny), f_base_date = as_base_date now,
         f_candidate_times = [u ''0000''],
         f_attempts = [attempt_record (as_base_date now) (hour_floor now) code1 msg1 j1]\<rparr>)
        [request_params key (as_base_date now) (u ''0000'') nx ny]"
    using get_now_weather_midnight_empty [of env key city nx ny now service j1 code1 msg1]
    by blast
next
  assume "need_env env (u ''KMA_SERVICE_KEY'') = Inr key \<and>
    map_of CITY_TO_GRID (normalize_city city) = Some (nx, ny) \<and>
    1 < dt_year now \<and> 0 < dt_hour now \<and>
    service 0 (request_params key (as_base_date now) (pad2 (dt_hour now) @ u ''00'') nx ny)
      = Returned j1 \<and>
    read_header j1 = Inr (code1, msg1) \<and> \<not> (code1 = u ''00'' \<and> extract_items j1 \<noteq> []) \<and>
    service 1 (request_params key (as_base_date now) (pad2 (dt_hour now - 1) @ u ''00'') nx ny)
      = Returned j2 \<and>
    read_header j2 = Inr (code2, msg2) \<and> \<not> (code2 = u ''00'' \<and> extract_items j2 \<noteq> [])"
  then show "get_now_weather env service now city =
      Replied (Failure
        \<lparr>f_error = empty_data_message code2 (length (extract_items j2)),
         f_region = normalize_city city, f_grid = (nx, ny), f_base_date = as_base_date now,
         f_candidate_times = [pad2 (dt_hour now) @ u ''00'', pad2 (dt_hour now - 1) @ u ''00''],
         f_attempts = [attempt_record (as_base_date now) (hour_floor now) code1 msg1 j1,
                       attempt_record (as_base_date now)
                         (hour_floor now\<lparr>dt_hour := dt_hour now - 1\<rparr>) code2 msg2 j2]\<rparr>)
        [request_params key (as_base_date now) (pad2 (dt_hour now) @ u ''00'') nx ny,
         request_params key (as_base_date now) (pad2 (dt_hour now - 1) @ u ''00'') nx ny]"
    using get_now_weather_daytime_empty [of env key city nx ny now service j1 code1 msg1
        j2 code2 msg2]
    by blast
next
  show "get_now_weather configured_env no_data t_13_40 K_seoul =
     Replied (Failure
       \<lparr>f_error = K_empty_data @ u ''(resultCode=00, count=0)'',
        f_region = K_seoul, f_grid = (60, 127), f_base_date = u ''20261103'',
        f_candidate_times = [u ''1300'', u ''1200''],
        f_attempts =
          [\<lparr>a_base_date = u ''20261103'', a_base_time = u ''1300'', a_resultCode = u ''00'',
            a_resultMsg = u ''OK'', a_count = 0\<rparr>,
           \<lparr>a_base_date = u ''20261103'', a_base_time = u ''1200'', a_resultCode = u ''00'',
            a_resultMsg = u ''OK'', a_count = 0\<rparr>]\<rparr>)
       [request_params (u ''key'') (u ''20261103'') (u ''1300'') 60 127,
        request_params (u ''key'') (u ''20261103'') (u ''1200'') 60 127]"
    by (rule no_data_failure)
qed

theorem exhausted_windows_witness:
  "need_env configured_env (u ''KMA_SERVICE_KEY'') = Inr (u ''key'') \<and>
   map_of CITY_TO_GRID (normalize_city K_seoul) = Some (60, 127) \<and>
   valid_datetime t_00_15 \<and> 1 < dt_year t_00_15 \<and> dt_hour t_00_15 = 0 \<and>
   no_data 0 (request_params (u ''key'') (as_base_date t_00_15) (u ''0000'') 60 127)
     = Returned (envelope ''00'' []) \<and>
   read_header (envelope ''00'' []) = Inr (u ''00'', u ''OK'') \<and>
   \<not> (u ''00'' = u ''00'' \<and> extract_items (envelope ''00'' []) \<noteq> []) \<and>
   get_now_weather configured_env no_data t_00_15 K_seoul =
     Replied (Failure
       \<lparr>f_error = empty_data_message (u ''00'') (length (extract_items (envelope ''00'' []))),
        f_region = normalize_city K_seoul, f_grid = (60, 127),
        f_base_date = as_base_date t_00_15, f_candidate_times = [u ''0000''],
        f_attempts = [attempt_record (as_base_date t_00_15) (hour_floor t_00_15) (u ''00'')
                        (u ''OK'') (envelope ''00'' [])]\<rparr>)
       [request_params (u ''key'') (as_base_date t_00_15) (u ''0000'') 60 127] \<and>
   1 < dt_year t_13_40 \<and> 0 < dt_hour t_13_40 \<and>
   no_data 0 (request_params (u ''key'') (as_base_date t_13_40)
     (pad2 (dt_hour t_13_40) @ u ''00'') 60 127) = Returned (envelope ''00'' []) \<and>
   no_data 1 (request_params (u ''key'') (as_base_date t_13_40)
     (pad2 (dt_hour t_13_40 - 1) @ u ''00'') 60 127) = Returned (envelope ''00'' []) \<and>
   get_now_weather configured_env no_data t_13_40 K_seoul =
     Replied (Failure
       \<lparr>f_error = empty_data_message (u ''00'') (length (extract_items (envelope ''00'' []))),
        f_region = normalize_city K_seoul, f_grid = (60, 127),
        f_base_date = as_base_date t_13_40,
        f_candidate_times = [pad2 (dt_hour t_13_40) @ u ''00'',
                             pad2 (dt_hour t_13_40 - 1) @ u ''00''],
        f_attempts = [attempt_record (as_base_date t_13_40) (hour_floor t_13_40) (u ''00'')
                        (u ''OK'') (envelope ''00'' []),
                      attempt_record (as_base_date t_13_40)
                        (hour_floor t_13_40\<lparr>dt_hour := dt_hour t_13_40 - 1\<rparr>) (u ''00'')
                        (u ''OK'') (envelope ''00'' [])]\<rparr>)
       [request_params (u ''key'') (as_base_date t_13_40) (pad2 (dt_hour t_13_40) @ u ''00'') 60 127,
        request_params (u ''key'') (as_base_date t_13_40)
          (pad2 (dt_hour t_13_40 - 1) @ u ''00'') 60 127]"
proof -
  have k: "need_env configured_env (u ''KMA_SERVICE_KEY'') = Inr (u ''key'')"
    by code_simp
  have g: "map_of CITY_TO_GRID (normalize_city K_seoul) = Some (60, 127)"
    by code_simp
  have m: "valid_datetime t_00_15 \<and> 1 < dt_year t_00_15 \<and> dt_hour t_00_15 = 0"
    by (simp add: valid_datetime_def t_00_15_def days_in_month_def)
  have d: "1 < dt_year t_13_40 \<and> 0 < dt_hour t_13_40"
    by (simp add: t_13_40_def)
  have s: "no_data 0 (request_params (u ''key'') (as_base_date t_00_15) (u ''0000'') 60 127)
             = Returned (envelope ''00'' [])"
    "no_data 0 (request_params (u ''key'') (as_base_date t_13_40)
       (pad2 (dt_hour t_13_40) @ u ''00'') 60 127) = Returned (envelope ''00'' [])"
    "no_data 1 (request_params (u ''key'') (as_base_date t_13_40)
       (pad2 (dt_hour t_13_40 - 1) @ u ''00'') 60 127) = Returned (envelope ''00'' [])"
    by (simp_all add: no_data_def)
  have h: "read_header (envelope ''00'' []) = Inr (u ''00'', u ''OK'')"
    by code_simp
  have e: "\<not> (u ''00'' = u ''00'' \<and> extract_items (envelope ''00'' []) \<noteq> [])"
    by code_simp
  from exhausted_windows [of configured_env "u ''key''" K_seoul 60 127 t_00_15 no_data
      "envelope ''00'' []" "u ''00''" "u ''OK''" "envelope ''00'' []" "u ''00''" "u ''OK''"]
    k g m s(1) h e
  have 1: "get_now_weather configured_env no_data t_00_15 K_seoul =
     Replied (Failure
       \<lparr>f_error = empty_data_message (u ''00'') (length (extract_items (envelope ''00'' []))),
        f_region = normalize_city K_seoul, f_grid = (60, 127),
        f_base_date = as_base_date t_00_15, f_candidate_times = [u ''0000''],
        f_attempts = [attempt_record (as_base_date t_00_15) (hour_floor t_00_15) (u ''00'')
                        (u ''OK'') (envelope ''00'' [])]\<rparr>)
       [request_params (u ''key'') (as_base_date t_00_15) (u ''0000'') 60 127]"
    by blast
  from exhausted_windows [of configured_env "u ''key''" K_seoul 60 127 t_13_40 no_data
      "envelope ''00'' []" "u ''00''" "u ''OK''" "envelope ''00'' []" "u ''00''" "u ''OK''"]
    k g d s(2,3) h e
  have 2: "get_now_weather configured_env no_data t_13_40 K_seoul =
     Replied (Failure
       \<lparr>f_error = empty_data_message (u ''00'') (length (extract_items (envelope ''00'' []))),
        f_region = normalize_city K_seoul, f_grid = (60, 127),
        f_base_date = as_base_date t_13_40,
        f_candidate_times = [pad2 (dt_hour t_13_40) @ u ''00'',
                             pad2 (dt_hour t_13_40 - 1) @ u ''00''],
        f_attempts = [attempt_record (as_base_date t_13_40) (hour_floor t_13_40) (u ''00'')
                        (u ''OK'') (envelope ''00'' []),
                      attempt_record (as_base_date t_13_40)
                        (hour_floor t_13_40\<lparr>dt_hour := dt_hour t_13_40 - 1\<rparr>) (u ''00'')
                        (u ''OK'') (envelope ''00'' [])]\<rparr>)
       [request_params (u ''key'') (as_base_date t_13_40) (pad2 (dt_hour t_13_40) @ u ''00'') 60 127,
        request_params (u ''key'') (as_base_date t_13_40)
          (pad2 (dt_hour t_13_40 - 1) @ u ''00'') 60 127]"
    by blast
  from k g m d s h e 1 2 show ?thesis by blast
qed

section \<open>Windows that are accepted\<close>

lemma spec_windows_head: "\<exists>rest. spec_windows now = hour_floor now # rest"
  by (simp add: spec_windows_def Let_def split: option.splits)

lemma get_now_weather_primary_success:
  assumes "need_env env (u ''KMA_SERVICE_KEY'') = Inr key"
    and "map_of CITY_TO_GRID (normalize_city city) = Some (nx, ny)"
    and "1 < dt_year now"
    and "service 0 (request_params key (as_base_date now) (pad2 (dt_hour now) @ u ''00'') nx ny)
           = Returned j1"
    and "read_header j1 = Inr (u ''00'', msg1)"
    and "extract_items j1 \<noteq> []"
    and "list_all is_dict (extract_items j1)"
  shows "\<exists>observed. normalize_observations (extract_items j1) = Inr observed \<and>
     get_now_weather env service now city =
       Replied (Success
         \<lparr>s_region = normalize_city city, s_grid = (nx, ny), s_base_date = as_base_date now,
          s_base_time = pad2 (dt_hour now) @ u ''00'', s_observed = observed,
          s_attempts = [attempt_record (as_base_date now) (hour_floor now) (u ''00'') msg1 j1]\<rparr>)
         [request_params key (as_base_date now) (pad2 (dt_hour now) @ u ''00'') nx ny]"
proof -
  from normalize_observations_total [OF assms(7)] obtain observed
    where n: "normalize_observations (extract_items j1) = Inr observed" by blast
  obtain rest where r: "spec_windows now = hour_floor now # rest"
    using spec_windows_head [of now] by blast
  have t: "as_base_time_hour (hour_floor now) = pad2 (dt_hour now) @ u ''00''"
    by (rule hour_floor_time)
  have "try_window service key (normalize_city city) nx ny (as_base_date now) (hour_floor now)
          \<lparr>attempts = [], last_error = None, sent = []\<rparr> =
        (Some \<lparr>s_region = normalize_city city, s_grid = (nx, ny), s_base_date = as_base_date now,
               s_base_time = as_base_time_hour (hour_floor now), s_observed = observed,
               s_attempts = attempts \<lparr>attempts = [], last_error = None, sent = []\<rparr> @
                 [attempt_record (as_base_date now) (hour_floor now) (u ''00'') msg1 j1]\<rparr>,
         \<lparr>attempts = attempts \<lparr>attempts = [], last_error = None, sent = []\<rparr> @
             [attempt_record (as_base_date now) (hour_floor now) (u ''00'') msg1 j1],
          last_error = last_error \<lparr>attempts = [], last_error = None, sent = []\<rparr>,
          sent = sent \<lparr>attempts = [], last_error = None, sent = []\<rparr> @
             [request_params key (as_base_date now) (as_base_time_hour (hour_floor now)) nx ny]\<rparr>)"
    using assms(4-6) n by (intro try_window_accepted) (simp_all add: t)
  then have "get_now_weather env service now city =
       Replied (Success
         \<lparr>s_region = normalize_city city, s_grid = (nx, ny), s_base_date = as_base_date now,
          s_base_time = pad2 (dt_hour now) @ u ''00'', s_observed = observed,
          s_attempts = [attempt_record (as_base_date now) (hour_floor now) (u ''00'') msg1 j1]\<rparr>)
         [request_params key (as_base_date now) (pad2 (dt_hour now) @ u ''00'') nx ny]"
    unfolding get_now_weather_loop [OF assms(1,2,3)] r
    by (simp add: hour_floor_date t)
  with n show ?thesis by blast
qed

lemma get_now_weather_fallback_success:
  assumes "need_env env (u ''KMA_SERVICE_KEY'') = Inr key"
    and "map_of CITY_TO_GRID (normalize_city city) = Some (nx, ny)"
    and "1 < dt_year now" and "0 < dt_hour now"
    and "\<not> accepted (service 0
           (request_params key (as_base_date now) (pad2 (dt_hour now) @ u ''00'') nx ny))"
    and "service 1 (request_params key (as_base_date now) (pad2 (dt_hour now - 1) @ u ''00'') nx ny)
           = Returned j2"
    and "read_header j2 = Inr (u ''00'', msg2)"
    and "extract_items j2 \<noteq> []"
    and "list_all is_dict (extract_items j2)"
  shows "\<exists>observed s. normalize_observations (extract_items j2) = Inr observed \<and>
     get_now_weather env service now city =
       Replied (Success s)
         [request_params key (as_base_date now) (pad2 (dt_hour now) @ u ''00'') nx ny,
          request_params key (as_base_date now) (pad2 (dt_hour now - 1) @ u ''00'') nx ny] \<and>
     s_region s = normalize_city city \<and> s_grid s = (nx, ny) \<and>
     s_base_date s = as_base_date now \<and> s_base_time s = pad2 (dt_hour now - 1) @ u ''00'' \<and>
     s_observed s = observed \<and>
     last (s_attempts s) =
       attempt_record (as_base_date now) (hour_floor now\<lparr>dt_hour := dt_hour now - 1\<rparr>)
         (u ''00'') msg2 j2"
proof -
  from normalize_observations_total [OF assms(9)] obtain observed
    where n: "normalize_observations (extract_items j2) = Inr observed" by blast
  define c2 where "c2 = hour_floor now\<lparr>dt_hour := dt_hour now - 1\<rparr>"
  define st0 where "st0 = \<lparr>attempts = [], last_error = None, sent = []\<rparr>"
  define bd where "bd = as_base_date now"
  define req1 where "req1 = request_params key bd (pad2 (dt_hour now) @ u ''00'') nx ny"
  define req2 where "req2 = request_params key bd (pad2 (dt_hour now - 1) @ u ''00'') nx ny"
  have t: "as_base_time_hour (hour_floor now) = pad2 (dt_hour now) @ u ''00''"
    "as_base_time_hour c2 = pad2 (dt_hour now - 1) @ u ''00''"
    by (simp_all add: as_base_time_hour_def hour_floor_def c2_def)
  have d: "as_base_date (hour_floor now) = bd" "as_base_date c2 = bd"
    by (simp_all add: as_base_date_def hour_floor_def c2_def bd_def)
  obtain r1 st1 where t1: "try_window service key (normalize_city city) nx ny bd (hour_floor now) st0
      = (r1, st1)"
    by (cases "try_window service key (normalize_city city) nx ny bd (hour_floor now) st0") auto
  have "fst (try_window service key (normalize_city city) nx ny bd (hour_floor now) st0) = None"
    using assms(5) by (intro try_window_not_accepted) (simp add: st0_def t bd_def)
  then have r1: "r1 = None" using t1 by simp
  have s1: "sent st1 = [req1]"
    using try_window_sent [of service key "normalize_city city" nx ny bd "hour_floor now" st0] t1
    by (simp add: st0_def t req1_def)
  have t2: "try_window service key (normalize_city city) nx ny bd c2 st1 =
        (Some \<lparr>s_region = normalize_city city, s_grid = (nx, ny), s_base_date = bd,
               s_base_time = as_base_time_hour c2, s_observed = observed,
               s_attempts = attempts st1 @ [attempt_record bd c2 (u ''00'') msg2 j2]\<rparr>,
         \<lparr>attempts = attempts st1 @ [attempt_record bd c2 (u ''00'') msg2 j2],
          last_error = last_error st1,
          sent = sent st1 @ [request_params key bd (as_base_time_hour c2) nx ny]\<rparr>)"
    using assms(6-8) n by (intro try_window_accepted) (simp_all add: t s1 bd_def)
  have "get_now_weather env service now city =
       Replied (Success \<lparr>s_region = normalize_city city, s_grid = (nx, ny), s_base_date = bd,
               s_base_time = as_base_time_hour c2, s_observed = observed,
               s_attempts = attempts st1 @ [attempt_record bd c2 (u ''00'') msg2 j2]\<rparr>)
         [req1, req2]"
    unfolding get_now_weather_loop [OF assms(1,2,3)] spec_windows_daytime [OF assms(4)]
      c2_def [symmetric] bd_def [symmetric] st0_def [symmetric]
    by (simp add: d t1 r1 t2 s1 t req2_def)
  with n show ?thesis
    unfolding req1_def req2_def bd_def c2_def
    by (intro exI conjI) (assumption, assumption, simp_all add: as_base_time_hour_def hour_floor_def)
qed

section \<open>Claim about the first accepted window\<close>

lemma sample_envelopes:
  "read_header (envelope ''00'' [JStr (u ''x'')]) = Inr (u ''00'', u ''OK'')"
  "extract_items (envelope ''00'' [JStr (u ''x'')]) = [JStr (u ''x'')]"
  "normalize_observations [JStr (u ''x'')] = Inl (no_attribute_get (JStr (u ''x'')))"
  "read_header (envelope ''00'' [obs ''T1H'' ''1'']) = Inr (u ''00'', u ''OK'')"
  "extract_items (envelope ''00'' [obs ''T1H'' ''1'']) = [obs ''T1H'' ''1'']"
  "normalize_observations [obs ''T1H'' ''1''] =
     Inr [(K_gion, [(K_gion, T1H_entry 1)]), (K_seupdo, []), (K_gangsu, []), (K_baram, []),
          (K_gita, [])]"
  "extract_items (envelope ''00'' [obs ''T1H'' ''2'', obs ''REH'' ''50''])
     = [obs ''T1H'' ''2'', obs ''REH'' ''50'']"
  "accepted (Returned (envelope ''00'' [obs ''T1H'' ''2'', obs ''REH'' ''50'']))"
  by code_simp+

lemma string_item_second_window:
  "get_now_weather configured_env string_item_first t_13_40 K_seoul =
     Replied (Success
       \<lparr>s_region = K_seoul, s_grid = (60, 127), s_base_date = u ''20261103'',
        s_base_time = u ''1200'',
        s_observed = [(K_gion, [(K_gion, T1H_entry 1)]), (K_seupdo, []), (K_gangsu, []),
                      (K_baram, []), (K_gita, [])],
        s_attempts =
          [\<lparr>a_base_date = u ''20261103'', a_base_time = u ''1300'', a_resultCode = u ''00'',
            a_resultMsg = u ''OK'', a_count = 1\<rparr>,
           \<lparr>a_base_date = u ''20261103'', a_base_time = u ''1200'', a_resultCode = u ''00'',
            a_resultMsg = u ''OK'', a_count = 1\<rparr>]\<rparr>)
       [request_params (u ''key'') (u ''20261103'') (u ''1300'') 60 127,
        request_params (u ''key'') (u ''20261103'') (u ''1200'') 60 127]"
proof -
  have a: "as_base_date (hour_floor t_13_40\<lparr>dt_hour := dt_hour t_13_40 - Suc 0\<rparr>) = as_base_date t_13_40"
    by (simp add: as_base_date_def hour_floor_def)
  have t: "as_base_time_hour (hour_floor t_13_40) = u ''1300''"
    "as_base_time_hour (hour_floor t_13_40\<lparr>dt_hour := dt_hour t_13_40 - Suc 0\<rparr>) = u ''1200''"
    by (simp_all add: as_base_time_hour_def hour_floor_def t_13_40_def pad2_def u_def)
  show ?thesis
    unfolding get_now_weather_loop [OF configured_key seoul_grid sample_times(5)]
      spec_windows_daytime [OF sample_times(6)]
    by (simp add: Let_def hour_floor_date a try_window_def fetch_ultra_srt_ncst_def string_item_first_def
        t sample_dates sample_envelopes seoul_normal)
qed

lemma one_then_two_first_window:
  "get_now_weather configured_env one_then_two t_13_40 K_seoul =
     Replied (Success
       \<lparr>s_region = K_seoul, s_grid = (60, 127), s_base_date = u ''20261103'',
        s_base_time = u ''1300'',
        s_observed = [(K_gion, [(K_gion, T1H_entry 1)]), (K_seupdo, []), (K_gangsu, []),
                      (K_baram, []), (K_gita, [])],
        s_attempts =
          [\<lparr>a_base_date = u ''20261103'', a_base_time = u ''1300'', a_resultCode = u ''00'',
            a_resultMsg = u ''OK'', a_count = 1\<rparr>]\<rparr>)
       [request_params (u ''key'') (u ''20261103'') (u ''1300'') 60 127]"
proof -
  have t: "as_base_time_hour (hour_floor t_13_40) = u ''1300''"
    by (simp_all add: as_base_time_hour_def hour_floor_def t_13_40_def pad2_def u_def)
  obtain rest where r: "spec_windows t_13_40 = hour_floor t_13_40 # rest"
    using spec_windows_head [of t_13_40] by blast
  show ?thesis
    unfolding get_now_weather_loop [OF configured_key seoul_grid sample_times(5)] r
    by (simp add: Let_def hour_floor_date try_window_def fetch_ultra_srt_ncst_def one_then_two_def
        request_params_def t sample_dates sample_envelopes seoul_normal)
qed

lemma one_then_two_fallback:
  "one_then_two 1 (request_params (u ''key'') (u ''20261103'') (u ''1200'') 60 127) =
     Returned (envelope ''00'' [obs ''T1H'' ''2'', obs ''REH'' ''50''])"
  by (simp add: one_then_two_def request_params_def u_def)

text \<open>
  Claim C2, as stated: as soon as the response of an eligible window parses with the
  result code \<open>00\<close> and a non-empty item list, the result is the success built from
  that window and no later window is asked for. The success dict is built inside the
  \<open>try\<close> block, and \<open>normalize_observations\<close> raises on an item that is not a dict; the
  catch-all handler takes the exception and the loop goes on. At 13:40 for Seoul, with a
  service whose first response has the result code \<open>00\<close> and the item list holding one
  string, the 1200 window is asked for as well and the success is built from it.
\<close>

theorem string_item_counterexample:
  "string_item_first 0 (request_params (u ''key'') (u ''20261103'') (u ''1300'') 60 127)
     = Returned (envelope ''00'' [JStr (u ''x'')]) \<and>
   read_header (envelope ''00'' [JStr (u ''x'')]) = Inr (u ''00'', u ''OK'') \<and>
   extract_items (envelope ''00'' [JStr (u ''x'')]) = [JStr (u ''x'')] \<and>
   get_now_weather configured_env string_item_first t_13_40 K_seoul =
     Replied (Success
       \<lparr>s_region = K_seoul, s_grid = (60, 127), s_base_date = u ''20261103'',
        s_base_time = u ''1200'',
        s_observed = [(K_gion, [(K_gion, T1H_entry 1)]), (K_seupdo, []), (K_gangsu, []),
                      (K_baram, []), (K_gita, [])],
        s_attempts =
          [\<lparr>a_base_date = u ''20261103'', a_base_time = u ''1300'', a_resultCode = u ''00'',
            a_resultMsg = u ''OK'', a_count = 1\<rparr>,
           \<lparr>a_base_date = u ''20261103'', a_base_time = u ''1200'', a_resultCode = u ''00'',
            a_resultMsg = u ''OK'', a_count = 1\<rparr>]\<rparr>)
       [request_params (u ''key'') (u ''20261103'') (u ''1300'') 60 127,
        request_params (u ''key'') (u ''20261103'') (u ''1200'') 60 127]"
proof -
  have "string_item_first 0 (request_params (u ''key'') (u ''20261103'') (u ''1300'') 60 127)
     = Returned (envelope ''00'' [JStr (u ''x'')])"
    by (simp add: string_item_first_def)
  with sample_envelopes(1,2) string_item_second_window show ?thesis by blast
qed

text \<open>
  Claim C2, amended. With the service key configured and a supported city, when the
  response of the primary window has the result code \<open>00\<close> and a non-empty item list
  whose items are all dicts, \<open>get_now_weather\<close> returns the success built from the items
  of that window, with the one attempt record, and sends no request for the second
  window. When the primary window is not accepted and the response of the second window
  (in a later hour than the first of the day) has the result code \<open>00\<close> and a non-empty
  list of dicts, the success is built from the items of the second window, after the two
  requests. With a service that gives one record for the 1300 window and would give two
  for any other, the result at 13:40 holds the one record of the 1300 window alone.
\<close>

theorem first_success_wins:
  "(need_env env (u ''KMA_SERVICE_KEY'') = Inr key \<and>
    map_of CITY_TO_GRID (normalize_city city) = Some (nx, ny) \<and> 1 < dt_year now \<and>
    service 0 (request_params key (as_base_date now) (pad2 (dt_hour now) @ u ''00'') nx ny)
      = Returned j1 \<and>
    read_header j1 = Inr (u ''00'', msg1) \<and> extract_items j1 \<noteq> [] \<and>
    list_all is_dict (extract_items j1)
    \<longrightarrow>
    (\<exists>observed. normalize_observations (extract_items j1) = Inr observed \<and>
       get_now_weather env service now city =
         Replied (Success
           \<lparr>s_region = normalize_city city, s_grid = (nx, ny), s_base_date = as_base_date now,
            s_base_time = pad2 (dt_hour now) @ u ''00'', s_observed = observed,
            s_attempts = [attempt_record (as_base_date now) (hour_floor now) (u ''00'') msg1 j1]\<rparr>)
           [request_params key (as_base_date now) (pad2 (dt_hour now) @ u ''00'') nx ny])) \<and>
   (need_env env (u ''KMA_SERVICE_KEY'') = Inr key \<and>
    map_of CITY_TO_GRID (normalize_city city) = Some (nx, ny) \<and> 1 < dt_year now \<and>
    0 < dt_hour now \<and>
    \<not> accepted (service 0
         (request_params key (as_base_date now) (pad2 (dt_hour now) @ u ''00'') nx ny)) \<and>
    service 1 (request_params key (as_base_date now) (pad2 (dt_hour now - 1) @ u ''00'') nx ny)
      = Returned j2 \<and>
    read_header j2 = Inr (u ''00'', msg2) \<and> extract_items j2 \<noteq> [] \<and>
    list_all is_dict (extract_items j2)
    \<longrightarrow>
    (\<exists>observed s. normalize_observations (extract_items j2) = Inr observed \<and>
       get_now_weather env service now city =
         Replied (Success s)
           [request_params key (as_base_date now) (pad2 (dt_hour now) @ u ''00'') nx ny,
            request_params key (as_base_date now) (pad2 (dt_hour now - 1) @ u ''00'') nx ny] \<and>
       s_region s = normalize_city city \<and> s_grid s = (nx, ny) \<and>
       s_base_date s = as_base_date now \<and>
       s_base_time s = pad2 (dt_hour now - 1) @ u ''00'' \<and>
       s_observed s = observed \<and>
       last (s_attempts s) =
         attempt_record (as_base_date now) (hour_floor now\<lparr>dt_hour := dt_hour now - 1\<rparr>)
           (u ''00'') msg2 j2)) \<and>
   get_now_weather configured_env one_then_two t_13_40 K_seoul =
     Replied (Success
       \<lparr>s_region = K_seoul, s_grid = (60, 127), s_base_date = u ''20261103'',
        s_base_time = u ''1300'',
        s_observed = [(K_gion, [(K_gion, T1H_entry 1)]), (K_seupdo, []), (K_gangsu, []),
                      (K_baram, []), (K_gita, [])],
        s_attempts =
          [\<lparr>a_base_date = u ''20261103'', a_base_time = u ''1300'', a_resultCode = u ''00'',
            a_resultMsg = u ''OK'', a_count = 1\<rparr>]\<rparr>)
       [request_params (u ''key'') (u ''20261103'') (u ''1300'') 60 127] \<and>
   one_then_two 1 (request_params (u ''key'') (u ''20261103'') (u ''1200'') 60 127) =
     Returned (envelope ''00'' [obs ''T1H'' ''2'', obs ''REH'' ''50'']) \<and>
   accepted (Returned (envelope ''00'' [obs ''T1H'' ''2'', obs ''REH'' ''50''])) \<and>
   length (extract_items (envelope ''00'' [obs ''T1H'' ''2'', obs ''REH'' ''50''])) = 2"
proof -
  have A: "need_env env (u ''KMA_SERVICE_KEY'') = Inr key \<and>
    map_of CITY_TO_GRID (normalize_city city) = Some (nx, ny) \<and> 1 < dt_year now \<and>
    service 0 (request_params key (as_base_date now) (pad2 (dt_hour now) @ u ''00'') nx ny)
      = Returned j1 \<and>
    read_header j1 = Inr (u ''00'', msg1) \<and> extract_items j1 \<noteq> [] \<and>
    list_all is_dict (extract_items j1)
    \<longrightarrow>
    (\<exists>observed. normalize_observations (extract_items j1) = Inr observed \<and>
       get_now_weather env service now city =
         Replied (Success
           \<lparr>s_region = normalize_city city, s_grid = (nx, ny), s_base_date = as_base_date now,
            s_base_time = pad2 (dt_hour now) @ u ''00'', s_observed = observed,
            s_attempts = [attempt_record (as_base_date now) (hour_floor now) (u ''00'') msg1 j1]\<rparr>)
           [request_params key (as_base_date now) (pad2 (dt_hour now) @ u ''00'') nx ny])"
    using get_now_weather_primary_success [of env key city nx ny now service j1 msg1]
    by blast
  have B: "need_env env (u ''KMA_SERVICE_KEY'') = Inr key \<and>
    map_of CITY_TO_GRID (normalize_city city) = Some (nx, ny) \<and> 1 < dt_year now \<and>
    0 < dt_hour now \<and>
    \<not> accepted (service 0
         (request_params key (as_base_date now) (pad2 (dt_hour now) @ u ''00'') nx ny)) \<and>
    service 1 (request_params key (as_base_date now) (pad2 (dt_hour now - 1) @ u ''00'') nx ny)
      = Returned j2 \<and>
    read_header j2 = Inr (u ''00'', msg2) \<and> extract_items j2 \<noteq> [] \<and>
    list_all is_dict (extract_items j2)
    \<longrightarrow>
    (\<exists>observed s. normalize_observations (extract_items j2) = Inr observed \<and>
       get_now_weather env service now city =
         Replied (Success s)
           [request_params key (as_base_date now) (pad2 (dt_hour now) @ u ''00'') nx ny,
            request_params key (as_base_date now) (pad2 (dt_hour now - 1) @ u ''00'') nx ny] \<and>
       s_region s = normalize_city city \<and> s_grid s = (nx, ny) \<and>
       s_base_date s = as_base_date now \<and>
       s_base_time s = pad2 (dt_hour now - 1) @ u ''00'' \<and>
       s_observed s = observed \<and>
       last (s_attempts s) =
         attempt_record (as_base_date now) (hour_floor now\<lparr>dt_hour := dt_hour now - 1\<rparr>)
           (u ''00'') msg2 j2)"
    using get_now_weather_fallback_success [of env key city nx ny now service j2 msg2]
    by blast
  have C: "length (extract_items (envelope ''00'' [obs ''T1H'' ''2'', obs ''REH'' ''50''])) = 2"
    by (simp add: sample_envelopes(7))
  from A B C one_then_two_first_window one_then_two_fallback sample_envelopes(8)
  show ?thesis by (intro conjI)
qed

theorem first_success_wins_witness:
  "need_env configured_env (u ''KMA_SERVICE_KEY'') = Inr (u ''key'') \<and>
   map_of CITY_TO_GRID (normalize_city K_seoul) = Some (60, 127) \<and>
   1 < dt_year t_13_40 \<and> 0 < dt_hour t_13_40 \<and>
   one_then_two 0 (request_params (u ''key'') (as_base_date t_13_40)
     (pad2 (dt_hour t_13_40) @ u ''00'') 60 127) = Returned (envelope ''00'' [obs ''T1H'' ''1'']) \<and>
   read_header (envelope ''00'' [obs ''T1H'' ''1'']) = Inr (u ''00'', u ''OK'') \<and>
   extract_items (envelope ''00'' [obs ''T1H'' ''1'']) \<noteq> [] \<and>
   list_all is_dict (extract_items (envelope ''00'' [obs ''T1H'' ''1''])) \<and>
   (\<exists>observed. normalize_observations (extract_items (envelope ''00'' [obs ''T1H'' ''1'']))
        = Inr observed \<and>
      get_now_weather configured_env one_then_two t_13_40 K_seoul =
        Replied (Success
          \<lparr>s_region = normalize_city K_seoul, s_grid = (60, 127),
           s_base_date = as_base_date t_13_40,
           s_base_time = pad2 (dt_hour t_13_40) @ u ''00'', s_observed = observed,
           s_attempts = [attempt_record (as_base_date t_13_40) (hour_floor t_13_40) (u ''00'')
                           (u ''OK'') (envelope ''00'' [obs ''T1H'' ''1''])]\<rparr>)
          [request_params (u ''key'') (as_base_date t_13_40)
             (pad2 (dt_hour t_13_40) @ u ''00'') 60 127]) \<and>
   \<not> accepted (string_item_first 0 (request_params (u ''key'') (as_base_date t_13_40)
     (pad2 (dt_hour t_13_40) @ u ''00'') 60 127)) \<and>
   string_item_first 1 (request_params (u ''key'') (as_base_date t_13_40)
     (pad2 (dt_hour t_13_40 - 1) @ u ''00'') 60 127) = Returned (envelope ''00'' [obs ''T1H'' ''1'']) \<and>
   (\<exists>observed s. normalize_observations (extract_items (envelope ''00'' [obs ''T1H'' ''1'']))
        = Inr observed \<and>
      get_now_weather configured_env string_item_first t_13_40 K_seoul =
        Replied (Success s)
          [request_params (u ''key'') (as_base_date t_13_40)
             (pad2 (dt_hour t_13_40) @ u ''00'') 60 127,
           request_params (u ''key'') (as_base_date t_13_40)
             (pad2 (dt_hour t_13_40 - 1) @ u ''00'') 60 127] \<and>
      s_region s = normalize_city K_seoul \<and> s_grid s = (60, 127) \<and>
      s_base_date s = as_base_date t_13_40 \<and>
      s_base_time s = pad2 (dt_hour t_13_40 - 1) @ u ''00'' \<and>
      s_observed s = observed \<and>
      last (s_attempts s) =
        attempt_record (as_base_date t_13_40) (hour_floor t_13_40\<lparr>dt_hour := dt_hour t_13_40 - 1\<rparr>)
          (u ''00'') (u ''OK'') (envelope ''00'' [obs ''T1H'' ''1'']))"
proof -
  have k: "need_env configured_env (u ''KMA_SERVICE_KEY'') = Inr (u ''key'')"
    by code_simp
  have g: "map_of CITY_TO_GRID (normalize_city K_seoul) = Some (60, 127)"
    by code_simp
  have d: "1 < dt_year t_13_40" "0 < dt_hour t_13_40"
    by (simp_all add: t_13_40_def)
  have h: "read_header (envelope ''00'' [obs ''T1H'' ''1'']) = Inr (u ''00'', u ''OK'')"
    by code_simp
  have i: "extract_items (envelope ''00'' [obs ''T1H'' ''1'']) = [obs ''T1H'' ''1'']"
    by code_simp
  have i1: "extract_items (envelope ''00'' [obs ''T1H'' ''1'']) \<noteq> []"
    by (simp add: i)
  have i2: "list_all is_dict (extract_items (envelope ''00'' [obs ''T1H'' ''1'']))"
    unfolding i by (simp add: obs_def)
  have hh: "pad2 (dt_hour t_13_40) @ u ''00'' = u ''1300''"
    by (simp add: t_13_40_def pad2_def u_def)
  have s1: "one_then_two 0 (request_params (u ''key'') (as_base_date t_13_40)
     (pad2 (dt_hour t_13_40) @ u ''00'') 60 127) = Returned (envelope ''00'' [obs ''T1H'' ''1''])"
    by (simp add: one_then_two_def request_params_def hh)
  have x1: "read_header (envelope ''00'' [JStr (u ''x'')]) = Inr (u ''00'', u ''OK'')"
    by code_simp
  have x2: "extract_items (envelope ''00'' [JStr (u ''x'')]) = [JStr (u ''x'')]"
    by code_simp
  have x3: "normalize_observations [JStr (u ''x'')] = Inl (no_attribute_get (JStr (u ''x'')))"
    by code_simp
  have s2: "\<not> accepted (string_item_first 0 (request_params (u ''key'') (as_base_date t_13_40)
     (pad2 (dt_hour t_13_40) @ u ''00'') 60 127))"
    by (simp add: string_item_first_def accepted_def x1 x2 x3)
  have s3: "string_item_first 1 (request_params (u ''key'') (as_base_date t_13_40)
     (pad2 (dt_hour t_13_40 - 1) @ u ''00'') 60 127) = Returned (envelope ''00'' [obs ''T1H'' ''1''])"
    by (simp add: string_item_first_def)
  from first_success_wins [of configured_env "u ''key''" K_seoul 60 127 t_13_40 one_then_two
      "envelope ''00'' [obs ''T1H'' ''1'']" "u ''OK''" "envelope ''00'' [obs ''T1H'' ''1'']" "u ''OK''"]
    k g d s1 h i1 i2
  have 1: "\<exists>observed. normalize_observations (extract_items (envelope ''00'' [obs ''T1H'' ''1'']))
        = Inr observed \<and>
      get_now_weather configured_env one_then_two t_13_40 K_seoul =
        Replied (Success
          \<lparr>s_region = normalize_city K_seoul, s_grid = (60, 127),
           s_base_date = as_base_date t_13_40,
           s_base_time = pad2 (dt_hour t_13_40) @ u ''00'', s_observed = observed,
           s_attempts = [attempt_record (as_base_date t_13_40) (hour_floor t_13_40) (u ''00'')
                           (u ''OK'') (envelope ''00'' [obs ''T1H'' ''1''])]\<rparr>)
          [request_params (u ''key'') (as_base_date t_13_40)
             (pad2 (dt_hour t_13_40) @ u ''00'') 60 127]"
    by blast
  from first_success_wins [of configured_env "u ''key''" K_seoul 60 127 t_13_40 string_item_first
      "envelope ''00'' [obs ''T1H'' ''1'']" "u ''OK''" "envelope ''00'' [obs ''T1H'' ''1'']" "u ''OK''"]
    k g d s2 s3 h i1 i2
  have 2: "\<exists>observed s. normalize_observations (extract_items (envelope ''00'' [obs ''T1H'' ''1'']))
        = Inr observed \<and>
      get_now_weather configured_env string_item_first t_13_40 K_seoul =
        Replied (Success s)
          [request_params (u ''key'') (as_base_date t_13_40)
             (pad2 (dt_hour t_13_40) @ u ''00'') 60 127,
           request_params (u ''key'') (as_base_date t_13_40)
             (pad2 (dt_hour t_13_40 - 1) @ u ''00'') 60 127] \<and>
      s_region s = normalize_city K_seoul \<and> s_grid s = (60, 127) \<and>
      s_base_date s = as_base_date t_13_40 \<and>
      s_base_time s = pad2 (dt_hour t_13_40 - 1) @ u ''00'' \<and>
      s_observed s = observed \<and>
      last (s_attempts s) =
        attempt_record (as_base_date t_13_40) (hour_floor t_13_40\<lparr>dt_hour := dt_hour t_13_40 - 1\<rparr>)
          (u ''00'') (u ''OK'') (envelope ''00'' [obs ''T1H'' ''1''])"
    by blast
  from k g d s1 h i1 i2 1 s2 s3 2 show ?thesis by (intro conjI)
qed

end
